theory Spec2Isabelle
  imports Complex_Main "HOL-Library.AList" "HOL-Library.Sublist"
begin

section \<open>Python values as they come out of \<open>json.load\<close>\<close>

text \<open>
  The parsers of \<open>data_parsers.py\<close> work on the untyped trees that \<open>json.load\<close> returns.
  A float is either finite (represented by the real number it denotes; rounding is not
  modelled) or one of the three special values that \<open>json.load\<close> also accepts.
  Strings are lists of characters read as code points below 256. A \<open>dict\<close> is an
  association list in insertion order; lookup takes the first binding of a key.
\<close>

datatype pyfloat = Fin real | PosInf | NegInf | NaN

datatype pyval =
    PNone
  | PBool bool
  | PInt int
  | PFloat pyfloat
  | PStr string
  | PList "pyval list"
  | PDict "(string \<times> pyval) list"

datatype py_error =
    AttributeError | TypeError | ValueError | SyntaxError | JSONDecodeError
  | KeyError | OverflowError | RecursionError | MemoryError

type_synonym 'a result = "py_error + 'a"

type_synonym row = "(string \<times> pyval) list"

definition ebind :: "'a result \<Rightarrow> ('a \<Rightarrow> 'b result) \<Rightarrow> 'b result" where
  "ebind m f = (case m of Inl e \<Rightarrow> Inl e | Inr x \<Rightarrow> f x)"

text \<open>
  What the code takes from the interpreter and its libraries: reading and decoding a file
  (\<open>open\<close> followed by \<open>json.load\<close>; \<open>None\<close> when either raises), \<open>json.loads\<close>,
  \<open>ast.literal_eval\<close>, and \<open>float\<close> applied to a string.
\<close>

record py_runtime =
  load_json_file :: "string \<Rightarrow> pyval option"
  json_loads :: "string \<Rightarrow> pyval result"
  literal_eval :: "string \<Rightarrow> pyval result"
  float_of_str :: "string \<Rightarrow> pyfloat result"

subsection \<open>Built-in operations\<close>

text \<open>Truth value of an object, as used by \<open>if x\<close> and \<open>if not x\<close>.\<close>

fun truthy :: "pyval \<Rightarrow> bool" where
  "truthy PNone = False"
| "truthy (PBool b) = b"
| "truthy (PInt i) = (i \<noteq> 0)"
| "truthy (PFloat f) = (f \<noteq> Fin 0)"
| "truthy (PStr s) = (s \<noteq> [])"
| "truthy (PList xs) = (xs \<noteq> [])"
| "truthy (PDict kvs) = (kvs \<noteq> [])"

text \<open>\<open>d.get(k, default)\<close>: only a \<open>dict\<close> has the method.\<close>

fun py_get :: "pyval \<Rightarrow> string \<Rightarrow> pyval \<Rightarrow> pyval result" where
  "py_get (PDict kvs) k dflt = Inr (case map_of kvs k of Some v \<Rightarrow> v | None \<Rightarrow> dflt)"
| "py_get _ k dflt = Inl AttributeError"

text \<open>Iteration of a \<open>for\<close> loop: a dict yields its keys, a string its characters.\<close>

fun py_iter :: "pyval \<Rightarrow> pyval list result" where
  "py_iter (PList xs) = Inr xs"
| "py_iter (PDict kvs) = Inr (map (\<lambda>kv. PStr (fst kv)) kvs)"
| "py_iter (PStr s) = Inr (map (\<lambda>c. PStr [c]) s)"
| "py_iter _ = Inl TypeError"

fun py_len :: "pyval \<Rightarrow> nat result" where
  "py_len (PList xs) = Inr (length xs)"
| "py_len (PDict kvs) = Inr (length kvs)"
| "py_len (PStr s) = Inr (length s)"
| "py_len _ = Inl TypeError"

text \<open>
  \<open>float(i)\<close> of an integer raises \<open>OverflowError\<close> once \<open>i\<close> rounds beyond the largest
  double.
\<close>

definition float_int_limit :: int where
  "float_int_limit = 2 ^ 1024 - 2 ^ 970"

definition float_of_int :: "int \<Rightarrow> pyfloat result" where
  "float_of_int i = (if float_int_limit \<le> \<bar>i\<bar> then Inl OverflowError else Inr (Fin (of_int i)))"

fun py_float :: "py_runtime \<Rightarrow> pyval \<Rightarrow> pyfloat result" where
  "py_float rt (PBool b) = Inr (Fin (if b then 1 else 0))"
| "py_float rt (PInt i) = float_of_int i"
| "py_float rt (PFloat f) = Inr f"
| "py_float rt (PStr s) = float_of_str rt s"
| "py_float rt _ = Inl TypeError"

text \<open>\<open>int(f)\<close> of a float truncates towards zero.\<close>

fun int_of_float :: "pyfloat \<Rightarrow> int result" where
  "int_of_float (Fin r) = Inr (if r < 0 then - \<lfloor>- r\<rfloor> else \<lfloor>r\<rfloor>)"
| "int_of_float NaN = Inl ValueError"
| "int_of_float _ = Inl OverflowError"

text \<open>\<open>x == 0\<close> never raises; \<open>False\<close> is the integer 0.\<close>

fun py_eq_zero :: "pyval \<Rightarrow> bool" where
  "py_eq_zero (PBool b) = (\<not> b)"
| "py_eq_zero (PInt i) = (i = 0)"
| "py_eq_zero (PFloat f) = (f = Fin 0)"
| "py_eq_zero _ = False"

text \<open>\<open>x > 0\<close> raises \<open>TypeError\<close> on anything that is not a number.\<close>

fun py_gt_zero :: "pyval \<Rightarrow> bool result" where
  "py_gt_zero (PBool b) = Inr b"
| "py_gt_zero (PInt i) = Inr (0 < i)"
| "py_gt_zero (PFloat (Fin r)) = Inr (0 < r)"
| "py_gt_zero (PFloat PosInf) = Inr True"
| "py_gt_zero (PFloat _) = Inr False"
| "py_gt_zero _ = Inl TypeError"

fun float_sub :: "pyfloat \<Rightarrow> pyfloat \<Rightarrow> pyfloat" where
  "float_sub NaN _ = NaN"
| "float_sub _ NaN = NaN"
| "float_sub (Fin a) (Fin b) = Fin (a - b)"
| "float_sub PosInf PosInf = NaN"
| "float_sub NegInf NegInf = NaN"
| "float_sub PosInf _ = PosInf"
| "float_sub NegInf _ = NegInf"
| "float_sub _ PosInf = NegInf"
| "float_sub _ NegInf = PosInf"

fun as_int :: "pyval \<Rightarrow> int option" where
  "as_int (PBool b) = Some (if b then 1 else 0)"
| "as_int (PInt i) = Some i"
| "as_int _ = None"

fun as_float :: "pyval \<Rightarrow> pyfloat result" where
  "as_float (PFloat f) = Inr f"
| "as_float v = (case as_int v of Some i \<Rightarrow> float_of_int i | None \<Rightarrow> Inl TypeError)"

text \<open>
  \<open>a - b\<close>: integer subtraction when both are integers (or booleans), float subtraction
  when at least one is a float, \<open>TypeError\<close> otherwise.
\<close>

definition py_sub :: "pyval \<Rightarrow> pyval \<Rightarrow> pyval result" where
  "py_sub a b =
     (case (as_int a, as_int b) of
        (Some i, Some j) \<Rightarrow> Inr (PInt (i - j))
      | _ \<Rightarrow>
        (case (a, b) of
           (PFloat x, _) \<Rightarrow> ebind (as_float b) (\<lambda>y. Inr (PFloat (float_sub x y)))
         | (_, PFloat y) \<Rightarrow> ebind (as_float a) (\<lambda>x. Inr (PFloat (float_sub x y)))
         | _ \<Rightarrow> Inl TypeError))"

subsection \<open>String methods\<close>

text \<open>\<open>s.split(c)\<close>: every occurrence of \<open>c\<close> separates; the result is never empty.\<close>

fun split_on :: "char \<Rightarrow> string \<Rightarrow> string list" where
  "split_on c [] = [[]]"
| "split_on c (x # xs) =
     (if x = c then [] # split_on c xs
      else (case split_on c xs of [] \<Rightarrow> [[x]] | y # ys \<Rightarrow> (x # y) # ys))"

text \<open>\<open>s.split(c, 1)\<close> for a string that contains \<open>c\<close>: the parts around the first one.\<close>

definition split_first :: "char \<Rightarrow> string \<Rightarrow> string \<times> string" where
  "split_first c s = (takeWhile (\<lambda>x. x \<noteq> c) s, drop 1 (dropWhile (\<lambda>x. x \<noteq> c) s))"

definition startswith :: "string \<Rightarrow> string \<Rightarrow> bool" where
  "startswith s p = (take (length p) s = p)"

definition endswith :: "string \<Rightarrow> string \<Rightarrow> bool" where
  "endswith s p = (length p \<le> length s \<and> drop (length s - length p) s = p)"

text \<open>
  \<open>s.isdigit()\<close> holds for a non-empty string of digit characters; below code point 256
  these are the ASCII digits and the superscripts 1, 2 and 3, which \<open>int\<close> rejects.
  The bound that recent interpreters put on the number of digits \<open>int\<close> accepts is not
  modelled.
\<close>

definition ascii_digit :: "char \<Rightarrow> bool" where
  "ascii_digit c = (48 \<le> (of_char c :: nat) \<and> (of_char c :: nat) \<le> 57)"

definition digit_char :: "char \<Rightarrow> bool" where
  "digit_char c = (ascii_digit c \<or> (of_char c :: nat) \<in> {178, 179, 185})"

definition isdigit :: "string \<Rightarrow> bool" where
  "isdigit s = (s \<noteq> [] \<and> list_all digit_char s)"

definition int_of_str :: "string \<Rightarrow> int result" where
  "int_of_str s =
     (if s \<noteq> [] \<and> list_all ascii_digit s
      then Inr (fold (\<lambda>c n. 10 * n + (int (of_char c) - 48)) s 0)
      else Inl ValueError)"

text \<open>\<open>os.path.basename\<close> (POSIX): what follows the last slash.\<close>

definition basename :: "string \<Rightarrow> string" where
  "basename p = rev (takeWhile (\<lambda>c. c \<noteq> CHR ''/'') (rev p))"

text \<open>\<open>d.update(e)\<close>: bindings of \<open>e\<close> are written in order; a new key goes to the end.\<close>

definition dict_update :: "row \<Rightarrow> row \<Rightarrow> row" where
  "dict_update d e = fold (\<lambda>kv r. AList.update (fst kv) (snd kv) r) e d"

section \<open>Dataset settings\<close>

text \<open>
  The loop of lines 41 to 44: each comma-separated piece that contains \<open>=\<close> is split at
  the first one and stored, an all-digit value as an integer. \<open>int\<close> may raise.
\<close>

fun parse_settings :: "string list \<Rightarrow> row \<Rightarrow> row result" where
  "parse_settings [] settings = Inr settings"
| "parse_settings (item # items) settings =
     (if CHR ''='' \<in> set item then
        (case split_first CHR ''='' item of (key, val) \<Rightarrow>
           if isdigit val
           then ebind (int_of_str val) (\<lambda>n. parse_settings items (AList.update key (PInt n) settings))
           else parse_settings items (AList.update key (PStr val) settings))
      else parse_settings items settings)"

definition dict_get :: "row \<Rightarrow> string \<Rightarrow> pyval \<Rightarrow> pyval" where
  "dict_get d k dflt = (case map_of d k of Some v \<Rightarrow> v | None \<Rightarrow> dflt)"

text \<open>The test of line 33 on a string: it starts with \<open>['\<close> and ends with \<open>']\<close>.\<close>

definition list_shaped :: "string \<Rightarrow> bool" where
  "list_shaped s = (startswith s [CHR ''['', CHR 0x27] \<and> endswith s [CHR 0x27, CHR '']''])"

text \<open>
  The first \<open>try\<close> block (lines 33 to 54). \<open>Inr (Some r)\<close> is the \<open>return\<close> of line 46,
  \<open>Inr None\<close> is falling through to the JSON format (the shape test fails, the literal is
  not a non-empty list, or a \<open>ValueError\<close>, of which \<open>JSONDecodeError\<close> is a subclass, or a
  \<open>SyntaxError\<close> was caught), \<open>Inl e\<close> an exception that the \<open>except\<close> clause lets through.
\<close>

definition list_format :: "py_runtime \<Rightarrow> pyval \<Rightarrow> pyval \<Rightarrow> row option result" where
  "list_format rt request_loader data_str =
     (case data_str of
        PStr s \<Rightarrow>
          if list_shaped s then
            (case
               ebind (literal_eval rt s) (\<lambda>data_list.
                 case data_list of
                   PList (first # rest) \<Rightarrow>
                     (case first of
                        PStr item0 \<Rightarrow>
                          ebind (parse_settings (split_on CHR '','' item0) []) (\<lambda>settings.
                          ebind (py_get request_loader ''processor'' (PStr [])) (\<lambda>processor.
                            Inr (Some
                              [(''prompt_tokens'', dict_get settings ''prompt_tokens'' (PInt 0)),
                               (''prompt_tokens_stdev'', PInt 0),
                               (''output_tokens'', dict_get settings ''output_tokens'' (PInt 0)),
                               (''output_tokens_stdev'', PInt 0),
                               (''processor'', processor)])))
                      | _ \<Rightarrow> Inl AttributeError)
                 | _ \<Rightarrow> Inr None)
             of
               Inl ValueError \<Rightarrow> Inr None
             | Inl JSONDecodeError \<Rightarrow> Inr None
             | Inl SyntaxError \<Rightarrow> Inr None
             | r \<Rightarrow> r)
          else Inr None
      | _ \<Rightarrow> Inr None)"

text \<open>
  The second \<open>try\<close> block (lines 57 to 68): \<open>json.loads\<close> raises \<open>TypeError\<close> on anything
  but a string; the four \<open>data_dict.get\<close> raise \<open>AttributeError\<close> on anything but a dict;
  only \<open>JSONDecodeError\<close> and \<open>TypeError\<close> are caught.
\<close>

definition json_format :: "py_runtime \<Rightarrow> pyval \<Rightarrow> pyval \<Rightarrow> row result" where
  "json_format rt request_loader data_str =
     (case
        ebind (case data_str of PStr s \<Rightarrow> json_loads rt s | _ \<Rightarrow> Inl TypeError) (\<lambda>data_dict.
        ebind (py_get data_dict ''prompt_tokens'' (PInt 0)) (\<lambda>pt.
        ebind (py_get data_dict ''prompt_tokens_stdev'' (PInt 0)) (\<lambda>pts.
        ebind (py_get data_dict ''output_tokens'' (PInt 0)) (\<lambda>ot.
        ebind (py_get data_dict ''output_tokens_stdev'' (PInt 0)) (\<lambda>ots.
        ebind (py_get request_loader ''processor'' (PStr [])) (\<lambda>processor.
          Inr [(''prompt_tokens'', pt),
               (''prompt_tokens_stdev'', pts),
               (''output_tokens'', ot),
               (''output_tokens_stdev'', ots),
               (''processor'', processor)]))))))
      of
        Inl JSONDecodeError \<Rightarrow> Inr []
      | Inl TypeError \<Rightarrow> Inr []
      | r \<Rightarrow> r)"

definition default_settings :: row where
  "default_settings =
     [(''prompt_tokens'', PInt 400),
      (''prompt_tokens_stdev'', PInt 0),
      (''output_tokens'', PInt 200),
      (''output_tokens_stdev'', PInt 0),
      (''processor'', PStr ''multiturn'')]"

definition extract_dataset_settings :: "py_runtime \<Rightarrow> pyval \<Rightarrow> row result" where
  "extract_dataset_settings rt request_loader =
     (if request_loader = PNone then Inr default_settings
      else
        ebind (py_get request_loader ''data'' (PStr [])) (\<lambda>data_str.
          if \<not> truthy data_str then Inr []
          else
            ebind (list_format rt request_loader data_str) (\<lambda>r.
              case r of
                Some settings \<Rightarrow> Inr settings
              | None \<Rightarrow> json_format rt request_loader data_str)))"

section \<open>Axis values\<close>

text \<open>
  Lines 98 to 131 of \<open>parse_benchmark_metrics\<close>, repeated as lines 243 to 275 of
  \<open>parse_individual_requests\<close>: the strategy and the profile are taken from \<open>config\<close>
  unless what is found there is falsy, in which case \<open>args\<close> is asked; the result is the
  pair \<open>(concurrency, rps)\<close>.
\<close>

definition resolve_axis :: "py_runtime \<Rightarrow> pyval \<Rightarrow> pyval \<Rightarrow> (pyval \<times> pyval) result" where
  "resolve_axis rt config args =
     ebind (py_get config ''strategy'' (PDict [])) (\<lambda>strategy0.
     ebind (if \<not> truthy strategy0 then py_get args ''strategy'' (PDict []) else Inr strategy0)
       (\<lambda>strategy.
     ebind (py_get config ''profile'' (PDict [])) (\<lambda>profile0.
     ebind (if \<not> truthy profile0 then py_get args ''profile'' (PDict []) else Inr profile0)
       (\<lambda>profile.
     ebind (py_get strategy ''max_concurrency'' PNone) (\<lambda>concurrency0.
     ebind (if concurrency0 = PNone then py_get strategy ''streams'' PNone else Inr concurrency0)
       (\<lambda>concurrency.
     ebind (py_get profile ''strategy_type'' PNone) (\<lambda>profile_type.
     ebind (py_get strategy ''type_'' profile_type) (\<lambda>strategy_type.
     ebind
       (if strategy_type = PStr ''constant'' then
          ebind (py_get strategy ''rate'' PNone) (\<lambda>rate0.
          ebind
            (if rate0 = PNone then
               ebind (py_get profile ''rate'' PNone) (\<lambda>profile_rate.
                 case (if truthy profile_rate then profile_rate else PList []) of
                   PList (r # _) \<Rightarrow> Inr r
                 | _ \<Rightarrow> Inr PNone)
             else Inr rate0)
            (\<lambda>rate.
               if rate \<noteq> PNone then ebind (py_float rt rate) (\<lambda>f. Inr (PFloat f))
               else Inr PNone))
        else Inr PNone)
       (\<lambda>rps. Inr (concurrency, rps))))))))))"

section \<open>Summary rows\<close>

text \<open>What the functions print, as data.\<close>

datatype label = LabelConcurrency pyval | LabelRps int | LabelEmpty

datatype diag =
    ErrorReading string
  | NoBenchmarksFound string
  | NoAxisFound string
  | NoSuccessfulRequests string
  | FoundRequests nat string label
  | ColumnNotFound string
  | NoDataRemains string "pyval list"

text \<open>\<open>metrics.get(name, {}).get(bucket, {})\<close> and its \<open>.get('mean', 0)\<close>.\<close>

definition get_bucket :: "pyval \<Rightarrow> string \<Rightarrow> string \<Rightarrow> pyval result" where
  "get_bucket metrics name bucket =
     ebind (py_get metrics name (PDict [])) (\<lambda>m. py_get m bucket (PDict []))"

definition get_mean :: "pyval \<Rightarrow> string \<Rightarrow> string \<Rightarrow> pyval result" where
  "get_mean metrics name bucket =
     ebind (get_bucket metrics name bucket) (\<lambda>b. py_get b ''mean'' (PInt 0))"

text \<open>Lines 149 to 151 and 154 to 156: the mean of \<open>successful\<close>, or of \<open>total\<close> when that is 0.\<close>

definition tps_mean :: "pyval \<Rightarrow> string \<Rightarrow> pyval result" where
  "tps_mean metrics name =
     ebind (get_mean metrics name ''successful'') (\<lambda>m.
       if py_eq_zero m then get_mean metrics name ''total'' else Inr m)"

text \<open>\<open>if extra_metadata: row.update(extra_metadata)\<close>\<close>

definition add_metadata :: "row option \<Rightarrow> row \<Rightarrow> row" where
  "add_metadata extra_metadata r =
     (case extra_metadata of
        None \<Rightarrow> r
      | Some md \<Rightarrow> if md \<noteq> [] then dict_update r md else r)"

text \<open>The choice of lines 141 to 143 (and 284 to 286) and the call it feeds.\<close>

definition entry_dataset_settings :: "py_runtime \<Rightarrow> pyval \<Rightarrow> pyval \<Rightarrow> row result" where
  "entry_dataset_settings rt config benchmark =
     ebind (py_get config ''requests'' (PDict [])) (\<lambda>request_config.
     ebind (py_get benchmark ''request_loader'' (PDict [])) (\<lambda>request_loader.
       extract_dataset_settings rt
         (if truthy request_config then request_config else request_loader)))"

text \<open>
  Lines 146 to 199: the metrics of one entry and the row built from them, before the
  extra metadata are written over it.
\<close>

definition summary_row :: "string \<Rightarrow> string \<Rightarrow> pyval \<Rightarrow> pyval \<Rightarrow> row \<Rightarrow> pyval \<Rightarrow> row result" where
  "summary_row filename filepath concurrency rps dataset_settings benchmark =
     ebind (py_get benchmark ''metrics'' (PDict [])) (\<lambda>metrics.
     ebind (tps_mean metrics ''output_tokens_per_second'') (\<lambda>output_tps_mean.
     ebind (tps_mean metrics ''tokens_per_second'') (\<lambda>total_tps_mean.
     ebind (get_bucket metrics ''request_latency'' ''successful'') (\<lambda>request_latency.
     ebind (get_bucket metrics ''time_to_first_token_ms'' ''successful'') (\<lambda>ttft.
     ebind (get_bucket metrics ''inter_token_latency_ms'' ''successful'') (\<lambda>itl.
     ebind (py_get request_latency ''percentiles'' (PDict [])) (\<lambda>request_latency_percentiles.
     ebind (py_get ttft ''percentiles'' (PDict [])) (\<lambda>ttft_percentiles.
     ebind (py_get itl ''percentiles'' (PDict [])) (\<lambda>itl_percentiles.
     ebind (py_get request_latency ''mean'' (PInt 0)) (\<lambda>request_latency_mean.
     ebind (py_get request_latency ''median'' (PInt 0)) (\<lambda>request_latency_median.
     ebind (py_get ttft ''mean'' (PInt 0)) (\<lambda>ttft_mean.
     ebind (py_get ttft ''median'' (PInt 0)) (\<lambda>ttft_median.
     ebind (py_get itl ''mean'' (PInt 0)) (\<lambda>itl_mean.
     ebind (py_get itl ''median'' (PInt 0)) (\<lambda>itl_median.
     ebind (py_get request_latency_percentiles ''p95'' (PInt 0)) (\<lambda>request_latency_p95.
     ebind (py_get request_latency_percentiles ''p99'' (PInt 0)) (\<lambda>request_latency_p99.
     ebind (py_get ttft_percentiles ''p95'' (PInt 0)) (\<lambda>ttft_p95.
     ebind (py_get ttft_percentiles ''p99'' (PInt 0)) (\<lambda>ttft_p99.
     ebind (py_get itl_percentiles ''p95'' (PInt 0)) (\<lambda>itl_p95.
     ebind (py_get itl_percentiles ''p99'' (PInt 0)) (\<lambda>itl_p99.
     ebind (get_mean metrics ''prompt_token_count'' ''successful'') (\<lambda>input_sequence_length.
     ebind (get_mean metrics ''output_token_count'' ''successful'') (\<lambda>output_sequence_length.
       Inr [(''filename'', PStr filename),
            (''filepath'', PStr filepath),
            (''concurrency'', concurrency),
            (''rps'', rps),
            (''prompt_tokens'', dict_get dataset_settings ''prompt_tokens'' (PInt 0)),
            (''prompt_tokens_stdev'', dict_get dataset_settings ''prompt_tokens_stdev'' (PInt 0)),
            (''output_tokens'', dict_get dataset_settings ''output_tokens'' (PInt 0)),
            (''output_tokens_stdev'', dict_get dataset_settings ''output_tokens_stdev'' (PInt 0)),
            (''processor'', dict_get dataset_settings ''processor'' (PStr [])),
            (''mean_output_tokens_per_second'', output_tps_mean),
            (''mean_total_tokens_per_second'', total_tps_mean),
            (''request_latency_mean'', request_latency_mean),
            (''request_latency_median'', request_latency_median),
            (''ttft_mean'', ttft_mean),
            (''ttft_median'', ttft_median),
            (''itl_mean'', itl_mean),
            (''itl_median'', itl_median),
            (''request_latency_p95'', request_latency_p95),
            (''request_latency_p99'', request_latency_p99),
            (''ttft_p95'', ttft_p95),
            (''ttft_p99'', ttft_p99),
            (''itl_p95'', itl_p95),
            (''itl_p99'', itl_p99),
            (''input_sequence_length'', input_sequence_length),
            (''output_sequence_length'', output_sequence_length)])))))))))))))))))))))))"

text \<open>
  The body of the loop of \<open>parse_benchmark_metrics\<close> (lines 97 to 205) for one entry:
  the rows it appends (none or one) and what it prints.
\<close>

definition summary_entry ::
  "py_runtime \<Rightarrow> string \<Rightarrow> string \<Rightarrow> row option \<Rightarrow> pyval \<Rightarrow> (row list \<times> diag list) result" where
  "summary_entry rt filename filepath extra_metadata benchmark =
     ebind (py_get benchmark ''config'' (PDict [])) (\<lambda>config.
     ebind (py_get benchmark ''args'' (PDict [])) (\<lambda>args.
     ebind (resolve_axis rt config args) (\<lambda>axis.
       if fst axis = PNone \<and> snd axis = PNone then Inr ([], [NoAxisFound filepath])
       else
         ebind (entry_dataset_settings rt config benchmark) (\<lambda>dataset_settings.
         ebind (summary_row filename filepath (fst axis) (snd axis) dataset_settings benchmark)
           (\<lambda>r. Inr ([add_metadata extra_metadata r], []))))))"

text \<open>
  Running a loop body over the entries: the rows and the messages are appended in order;
  an exception in one entry ends the whole call.
\<close>

fun collect :: "('a \<Rightarrow> (row list \<times> diag list) result) \<Rightarrow> 'a list \<Rightarrow> (row list \<times> diag list) result" where
  "collect f [] = Inr ([], [])"
| "collect f (x # xs) =
     ebind (f x) (\<lambda>r. ebind (collect f xs) (\<lambda>rs. Inr (fst r @ fst rs, snd r @ snd rs)))"

definition parse_benchmark_metrics ::
  "py_runtime \<Rightarrow> string \<Rightarrow> row option \<Rightarrow> (row list \<times> diag list) result" where
  "parse_benchmark_metrics rt filepath extra_metadata =
     (case load_json_file rt filepath of
        None \<Rightarrow> Inr ([], [ErrorReading filepath])
      | Some data \<Rightarrow>
          ebind (py_get data ''benchmarks'' (PList [])) (\<lambda>benchmarks.
            if \<not> truthy benchmarks then Inr ([], [NoBenchmarksFound filepath])
            else
              ebind (py_iter benchmarks) (\<lambda>entries.
                collect (summary_entry rt (basename filepath) filepath extra_metadata) entries)))"

section \<open>Request rows\<close>

text \<open>
  Lines 333 to 346, one field at a time: the comparison \<open>t > 0\<close> and, when it holds,
  the subtraction \<open>t - test_start_time\<close>; both raise on operands that are not numbers.
\<close>

definition relative_time :: "pyval \<Rightarrow> pyval \<Rightarrow> pyval result" where
  "relative_time t test_start_time =
     ebind (py_gt_zero t) (\<lambda>positive.
       if positive then py_sub t test_start_time else Inr (PInt 0))"

text \<open>Lines 328 to 351: the three relative fields, all 0 without a run start time.\<close>

definition relative_times ::
  "pyval \<Rightarrow> pyval \<Rightarrow> pyval \<Rightarrow> pyval \<Rightarrow> (pyval \<times> pyval \<times> pyval) result" where
  "relative_times test_start_time first_token_time start_time end_time =
     (if test_start_time \<noteq> PNone then
        ebind (relative_time first_token_time test_start_time) (\<lambda>first_rel.
        ebind (relative_time start_time test_start_time) (\<lambda>start_rel.
        ebind (relative_time end_time test_start_time) (\<lambda>end_rel.
          Inr (first_rel, start_rel, end_rel))))
      else Inr (PInt 0, PInt 0, PInt 0))"

text \<open>
  The body of the inner loop (lines 300 to 352): the row of one request, before the extra
  metadata are written over it.
\<close>

definition request_row ::
  "string \<Rightarrow> string \<Rightarrow> pyval \<Rightarrow> pyval \<Rightarrow> pyval \<Rightarrow> row \<Rightarrow> pyval \<Rightarrow> row result" where
  "request_row filename filepath test_start_time concurrency rps dataset_settings request =
     ebind (py_get request ''start_time'' (PInt 0)) (\<lambda>start_time0.
     ebind (py_get request ''request_start_time'' start_time0) (\<lambda>start_time.
     ebind (py_get request ''end_time'' (PInt 0)) (\<lambda>end_time0.
     ebind (py_get request ''request_end_time'' end_time0) (\<lambda>end_time.
     ebind (py_get request ''request_id'' (PStr [])) (\<lambda>request_id.
     ebind (py_get request ''prompt_tokens'' (PInt 0)) (\<lambda>prompt_tokens.
     ebind (py_get request ''output_tokens'' (PInt 0)) (\<lambda>output_tokens.
     ebind (py_get request ''request_latency'' (PInt 0)) (\<lambda>request_latency.
     ebind (py_get request ''time_to_first_token_ms'' (PInt 0)) (\<lambda>time_to_first_token_ms.
     ebind (py_get request ''inter_token_latency_ms'' (PInt 0)) (\<lambda>inter_token_latency_ms.
     ebind (py_get request ''tokens_per_second'' (PInt 0)) (\<lambda>tokens_per_second.
     ebind (py_get request ''output_tokens_per_second'' (PInt 0)) (\<lambda>output_tokens_per_second.
     ebind (py_get request ''first_token_time'' (PInt 0)) (\<lambda>first_token_time.
     ebind (relative_times test_start_time first_token_time start_time end_time) (\<lambda>rel.
       Inr [(''filename'', PStr filename),
            (''filepath'', PStr filepath),
            (''concurrency'', concurrency),
            (''rps'', rps),
            (''dataset_prompt_tokens'', dict_get dataset_settings ''prompt_tokens'' (PInt 0)),
            (''dataset_output_tokens'', dict_get dataset_settings ''output_tokens'' (PInt 0)),
            (''request_id'', request_id),
            (''prompt_tokens'', prompt_tokens),
            (''output_tokens'', output_tokens),
            (''request_latency'', request_latency),
            (''time_to_first_token_ms'', time_to_first_token_ms),
            (''inter_token_latency_ms'', inter_token_latency_ms),
            (''tokens_per_second'', tokens_per_second),
            (''output_tokens_per_second'', output_tokens_per_second),
            (''first_token_time'', first_token_time),
            (''start_time'', start_time),
            (''end_time'', end_time),
            (''first_token_time_relative'', fst rel),
            (''start_time_relative'', fst (snd rel)),
            (''end_time_relative'', snd (snd rel))]))))))))))))))"

fun map_result :: "('a \<Rightarrow> 'b result) \<Rightarrow> 'a list \<Rightarrow> 'b list result" where
  "map_result f [] = Inr []"
| "map_result f (x # xs) = ebind (f x) (\<lambda>y. ebind (map_result f xs) (\<lambda>ys. Inr (y # ys)))"

text \<open>Line 296: the label of the message; \<open>int(rps)\<close> raises on a NaN or an infinity.\<close>

definition request_label :: "pyval \<Rightarrow> pyval \<Rightarrow> label result" where
  "request_label concurrency rps =
     (if concurrency \<noteq> PNone then Inr (LabelConcurrency concurrency)
      else
        (case rps of
           PNone \<Rightarrow> Inr LabelEmpty
         | PFloat f \<Rightarrow> ebind (int_of_float f) (\<lambda>n. Inr (LabelRps n))
         | _ \<Rightarrow> Inl TypeError))"

text \<open>
  The body of the outer loop of \<open>parse_individual_requests\<close> (lines 236 to 357) for one
  entry: the rows of its successful requests and what it prints.
\<close>

definition requests_entry ::
  "py_runtime \<Rightarrow> string \<Rightarrow> string \<Rightarrow> row option \<Rightarrow> pyval \<Rightarrow> (row list \<times> diag list) result" where
  "requests_entry rt filename filepath extra_metadata benchmark =
     ebind (py_get benchmark ''run_stats'' (PDict [])) (\<lambda>run_stats.
     ebind (py_get run_stats ''start_time'' PNone) (\<lambda>run_start.
     ebind (if run_start = PNone then py_get benchmark ''start_time'' PNone else Inr run_start)
       (\<lambda>test_start_time.
     ebind (py_get benchmark ''config'' (PDict [])) (\<lambda>config.
     ebind (py_get benchmark ''args'' (PDict [])) (\<lambda>args.
     ebind (resolve_axis rt config args) (\<lambda>axis.
       if fst axis = PNone \<and> snd axis = PNone then Inr ([], [NoAxisFound filepath])
       else
         ebind (entry_dataset_settings rt config benchmark) (\<lambda>dataset_settings.
         ebind (py_get benchmark ''requests'' (PDict [])) (\<lambda>requests.
         ebind (py_get requests ''successful'' (PList [])) (\<lambda>successful_requests.
           if \<not> truthy successful_requests then Inr ([], [NoSuccessfulRequests filepath])
           else
             ebind (request_label (fst axis) (snd axis)) (\<lambda>label.
             ebind (py_len successful_requests) (\<lambda>n.
             ebind (py_iter successful_requests) (\<lambda>reqs.
             ebind (map_result
                      (request_row filename filepath test_start_time (fst axis) (snd axis)
                         dataset_settings) reqs) (\<lambda>new_rows.
               Inr (map (add_metadata extra_metadata) new_rows,
                    [FoundRequests n filename label]))))))))))))))"

definition parse_individual_requests ::
  "py_runtime \<Rightarrow> string \<Rightarrow> row option \<Rightarrow> (row list \<times> diag list) result" where
  "parse_individual_requests rt filepath extra_metadata =
     (case load_json_file rt filepath of
        None \<Rightarrow> Inr ([], [ErrorReading filepath])
      | Some data \<Rightarrow>
          ebind (py_get data ''benchmarks'' (PList [])) (\<lambda>benchmarks.
            if \<not> truthy benchmarks then Inr ([], [NoBenchmarksFound filepath])
            else
              ebind (py_iter benchmarks) (\<lambda>entries.
                collect (requests_entry rt (basename filepath) filepath extra_metadata) entries)))"

section \<open>Tables\<close>

text \<open>
  A \<open>DataFrame\<close> built from a list of row dictionaries: the column names in order and
  the rows. A cell that a row does not define reads as NaN. Row labels are not modelled.
\<close>

record dataframe =
  columns :: "string list"
  rows :: "row list"

definition cell :: "row \<Rightarrow> string \<Rightarrow> pyval" where
  "cell r c = dict_get r c (PFloat NaN)"

text \<open>\<open>df[c]\<close>: the values of one column; \<open>KeyError\<close> when there is no such column.\<close>

definition column :: "dataframe \<Rightarrow> string \<Rightarrow> pyval list result" where
  "column df c = (if c \<in> set (columns df) then Inr (map (\<lambda>r. cell r c) (rows df)) else Inl KeyError)"

text \<open>\<open>df[c] = values\<close>, for as many values as there are rows.\<close>

definition set_column :: "dataframe \<Rightarrow> string \<Rightarrow> pyval list \<Rightarrow> dataframe" where
  "set_column df c vs =
     \<lparr>columns = (if c \<in> set (columns df) then columns df else columns df @ [c]),
      rows = map (\<lambda>rv. AList.update c (snd rv) (fst rv)) (zip (rows df) vs)\<rparr>"

text \<open>
  Lines 403 to 407. \<open>astype_str\<close> stands for the conversion of one cell by
  \<open>astype(str)\<close>; the two converted columns are joined element by element.
\<close>

definition dataset_ids :: "(pyval \<Rightarrow> string) \<Rightarrow> pyval list \<Rightarrow> pyval list \<Rightarrow> pyval list" where
  "dataset_ids astype_str ps os =
     map (\<lambda>po. PStr (astype_str (fst po) @ ''-'' @ astype_str (snd po))) (zip ps os)"

definition create_dataset_identifier :: "(pyval \<Rightarrow> string) \<Rightarrow> dataframe \<Rightarrow> dataframe result" where
  "create_dataset_identifier astype_str df =
     (if ''prompt_tokens'' \<in> set (columns df) then
        ebind (column df ''prompt_tokens'') (\<lambda>ps.
        ebind (column df ''output_tokens'') (\<lambda>os.
          Inr (set_column df ''dataset_id'' (dataset_ids astype_str ps os))))
      else if ''dataset_prompt_tokens'' \<in> set (columns df) then
        ebind (column df ''dataset_prompt_tokens'') (\<lambda>ps.
        ebind (column df ''dataset_output_tokens'') (\<lambda>os.
          Inr (set_column df ''dataset_id'' (dataset_ids astype_str ps os))))
      else Inr df)"

text \<open>
  \<open>Series.isin\<close>: numbers are compared by value whatever their type, NaN is found in a
  list that holds NaN, anything else must be the same object.
\<close>

fun number_value :: "pyval \<Rightarrow> pyfloat option" where
  "number_value (PBool b) = Some (Fin (if b then 1 else 0))"
| "number_value (PInt i) = Some (Fin (of_int i))"
| "number_value (PFloat f) = Some f"
| "number_value _ = None"

definition cell_eq :: "pyval \<Rightarrow> pyval \<Rightarrow> bool" where
  "cell_eq a b =
     (case (number_value a, number_value b) of
        (Some x, Some y) \<Rightarrow> x = y
      | (None, None) \<Rightarrow> a = b
      | _ \<Rightarrow> False)"

definition isin :: "pyval \<Rightarrow> pyval list \<Rightarrow> bool" where
  "isin v levels = list_ex (cell_eq v) levels"

text \<open>\<open>df[mask]\<close>: the rows at which the boolean mask holds.\<close>

definition select_rows :: "dataframe \<Rightarrow> bool list \<Rightarrow> dataframe" where
  "select_rows df keep = df\<lparr>rows := map fst (filter snd (zip (rows df) keep))\<rparr>"

text \<open>The column of an axis mode (lines 424 and 448).\<close>

definition axis_field :: "string \<Rightarrow> string" where
  "axis_field axis_mode = (if axis_mode = ''concurrency'' then ''concurrency'' else ''rps'')"

definition filter_data_by_levels ::
  "dataframe \<Rightarrow> string \<Rightarrow> pyval list option \<Rightarrow> dataframe \<times> diag list" where
  "filter_data_by_levels df axis_mode levels =
     (case levels of
        None \<Rightarrow> (df, [])
      | Some ls \<Rightarrow>
          (let field = axis_field axis_mode in
           if field \<notin> set (columns df) then (df, [ColumnNotFound field])
           else
             (let filtered_df = select_rows df (map (\<lambda>r. isin (cell r field) ls) (rows df)) in
              (filtered_df, if rows filtered_df = [] then [NoDataRemains field ls] else []))))"

section \<open>Notions used in the statements\<close>

text \<open>The rows of a result; a call that raised has emitted none.\<close>

definition rows_of :: "(row list \<times> diag list) result \<Rightarrow> row list" where
  "rows_of res = (case res of Inl e \<Rightarrow> [] | Inr rd \<Rightarrow> fst rd)"

text \<open>The extra metadata bind the key \<open>k\<close>, so that \<open>update\<close> writes over that field.\<close>

definition overrides :: "row option \<Rightarrow> string \<Rightarrow> bool" where
  "overrides extra_metadata k =
     (case extra_metadata of None \<Rightarrow> False | Some md \<Rightarrow> k \<in> fst ` set md)"

text \<open>The extra metadata bind none of the keys of a list.\<close>

definition untouched :: "row option \<Rightarrow> string list \<Rightarrow> bool" where
  "untouched extra_metadata ks = list_all (\<lambda>k. \<not> overrides extra_metadata k) ks"

text \<open>A row has both axis fields and at least one, respectively exactly one, is not null.\<close>

definition axis_present :: "row \<Rightarrow> bool" where
  "axis_present r =
     (case (map_of r ''concurrency'', map_of r ''rps'') of
        (Some c, Some p) \<Rightarrow> c \<noteq> PNone \<or> p \<noteq> PNone
      | _ \<Rightarrow> False)"

definition axis_exclusive :: "row \<Rightarrow> bool" where
  "axis_exclusive r =
     (case (map_of r ''concurrency'', map_of r ''rps'') of
        (Some c, Some p) \<Rightarrow> (c \<noteq> PNone) \<noteq> (p \<noteq> PNone)
      | _ \<Rightarrow> False)"

definition field_of :: "string \<Rightarrow> row \<Rightarrow> pyval option" where
  "field_of k r = map_of r k"

text \<open>
  The value found in a tree by following keys; \<open>None\<close> when a key is absent or when
  what is reached is not a mapping.
\<close>

fun lookup_path :: "pyval \<Rightarrow> string list \<Rightarrow> pyval option" where
  "lookup_path v [] = Some v"
| "lookup_path (PDict kvs) (k # ks) =
     (case map_of kvs k of Some v \<Rightarrow> lookup_path v ks | None \<Rightarrow> None)"
| "lookup_path _ (k # ks) = None"

text \<open>The entries that the loop of an extractor visits in the file at a path.\<close>

definition file_entries :: "py_runtime \<Rightarrow> string \<Rightarrow> pyval list" where
  "file_entries rt filepath =
     (case load_json_file rt filepath of
        None \<Rightarrow> []
      | Some data \<Rightarrow>
          (case lookup_path data [''benchmarks''] of
             None \<Rightarrow> []
           | Some benchmarks \<Rightarrow> (case py_iter benchmarks of Inl e \<Rightarrow> [] | Inr es \<Rightarrow> es)))"

text \<open>
  The throughput of an entry in the words of the specification: the mean of the
  \<open>successful\<close> bucket, an absent mean counting as 0, and the mean of the \<open>total\<close>
  bucket when that is 0.
\<close>

definition bucket_mean :: "pyval \<Rightarrow> string \<Rightarrow> string \<Rightarrow> pyval" where
  "bucket_mean benchmark name bucket =
     (case lookup_path benchmark [''metrics'', name, bucket, ''mean''] of
        Some v \<Rightarrow> v
      | None \<Rightarrow> PInt 0)"

definition throughput_mean :: "pyval \<Rightarrow> string \<Rightarrow> pyval" where
  "throughput_mean benchmark name =
     (if py_eq_zero (bucket_mean benchmark name ''successful'')
      then bucket_mean benchmark name ''total''
      else bucket_mean benchmark name ''successful'')"

text \<open>
  The run start time of an entry: \<open>run_stats.start_time\<close>, else the top-level
  \<open>start_time\<close>, else null.
\<close>

definition run_start_time :: "pyval \<Rightarrow> pyval" where
  "run_start_time benchmark =
     (case lookup_path benchmark [''run_stats'', ''start_time''] of
        Some v \<Rightarrow>
          if v \<noteq> PNone then v
          else (case lookup_path benchmark [''start_time''] of Some w \<Rightarrow> w | None \<Rightarrow> PNone)
      | None \<Rightarrow> (case lookup_path benchmark [''start_time''] of Some w \<Rightarrow> w | None \<Rightarrow> PNone))"

text \<open>
  A relative timestamp in the words of the specification: the absolute value minus the
  run start when the run start is known and the absolute value is strictly positive, 0 in
  every other case, and never null.
\<close>

definition relative_ok :: "pyval \<Rightarrow> pyval \<Rightarrow> pyval \<Rightarrow> bool" where
  "relative_ok run_start absolute relative =
     (relative \<noteq> PNone \<and>
      (if run_start \<noteq> PNone \<and> py_gt_zero absolute = Inr True
       then py_sub absolute run_start = Inr relative
       else relative = PInt 0))"

definition relative_fields_ok :: "pyval \<Rightarrow> string \<Rightarrow> string \<Rightarrow> row \<Rightarrow> bool" where
  "relative_fields_ok run_start absolute_key relative_key r =
     (case (map_of r absolute_key, map_of r relative_key) of
        (Some a, Some v) \<Rightarrow> relative_ok run_start a v
      | _ \<Rightarrow> False)"

text \<open>What is found at a path is absent or falsy, respectively present and truthy.\<close>

definition falsy_at :: "pyval \<Rightarrow> string list \<Rightarrow> bool" where
  "falsy_at v path = (case lookup_path v path of None \<Rightarrow> True | Some w \<Rightarrow> \<not> truthy w)"

definition truthy_at :: "pyval \<Rightarrow> string list \<Rightarrow> bool" where
  "truthy_at v path = (case lookup_path v path of None \<Rightarrow> False | Some w \<Rightarrow> truthy w)"

text \<open>
  An entry without loader information: no truthy \<open>config.requests\<close>, and a
  \<open>request_loader\<close> that is absent or an empty mapping.
\<close>

definition no_loader_info :: "pyval \<Rightarrow> bool" where
  "no_loader_info benchmark =
     (falsy_at benchmark [''config'', ''requests''] \<and>
      (lookup_path benchmark [''request_loader''] = None \<or>
       lookup_path benchmark [''request_loader''] = Some (PDict [])))"

text \<open>An entry whose three Variant-A sub-trees are present and truthy.\<close>

definition variant_a_complete :: "pyval \<Rightarrow> bool" where
  "variant_a_complete benchmark =
     (truthy_at benchmark [''config'', ''strategy''] \<and>
      truthy_at benchmark [''config'', ''profile''] \<and>
      truthy_at benchmark [''config'', ''requests''])"

text \<open>Two entries that differ at most in \<open>args\<close> and \<open>request_loader\<close>.\<close>

definition agree_outside_variant_b ::
  "(string \<times> pyval) list \<Rightarrow> (string \<times> pyval) list \<Rightarrow> bool" where
  "agree_outside_variant_b e e' =
     (\<forall>k. k \<noteq> ''args'' \<and> k \<noteq> ''request_loader'' \<longrightarrow> map_of e' k = map_of e k)"

text \<open>A row with its dataset identifier written from two of its cells.\<close>

definition with_dataset_id :: "(pyval \<Rightarrow> string) \<Rightarrow> string \<Rightarrow> string \<Rightarrow> row \<Rightarrow> row" where
  "with_dataset_id f pk ok r =
     AList.update ''dataset_id'' (PStr (f (cell r pk) @ ''-'' @ f (cell r ok))) r"

text \<open>
  A number that takes part in float arithmetic without overflow: a boolean, a float, or
  an integer below the bound of \<open>float\<close>.
\<close>

definition numeric :: "pyval \<Rightarrow> bool" where
  "numeric v =
     (case v of
        PBool b \<Rightarrow> True
      | PInt i \<Rightarrow> \<bar>i\<bar> < float_int_limit
      | PFloat f \<Rightarrow> True
      | _ \<Rightarrow> False)"

text \<open>\<open>c.join(ps)\<close>, the inverse of \<open>split\<close>.\<close>

fun join_with :: "char \<Rightarrow> string list \<Rightarrow> string" where
  "join_with c [] = []"
| "join_with c [p] = p"
| "join_with c (p # q # ps) = p @ c # join_with c (q # ps)"

text \<open>The fields that the statements about timestamps and dataset settings read.\<close>

definition timestamp_fields :: "string list" where
  "timestamp_fields =
     [''first_token_time'', ''start_time'', ''end_time'',
      ''first_token_time_relative'', ''start_time_relative'', ''end_time_relative'']"

definition dataset_fields :: "string list" where
  "dataset_fields =
     [''prompt_tokens'', ''prompt_tokens_stdev'', ''output_tokens'', ''output_tokens_stdev'',
      ''processor'', ''dataset_prompt_tokens'', ''dataset_output_tokens'']"

subsection \<open>Example inputs\<close>

text \<open>
  A runtime in which every path holds the document \<open>doc\<close>, \<open>json.loads\<close> decodes the
  text \<open>5\<close> and rejects everything else, \<open>ast.literal_eval\<close> reads the one literal of
  the specification, and \<open>float\<close> parses no string.
\<close>

definition settings_literal :: string where
  "settings_literal =
     [CHR ''['', CHR 0x27] @ ''prompt_tokens=512,output_tokens=256'' @ [CHR 0x27, CHR '']'']"

definition example_runtime :: "pyval \<Rightarrow> py_runtime" where
  "example_runtime doc =
     \<lparr>load_json_file = (\<lambda>p. Some doc),
      json_loads = (\<lambda>s. if s = ''5'' then Inr (PInt 5) else Inl JSONDecodeError),
      literal_eval = (\<lambda>s. if s = settings_literal
                            then Inr (PList [PStr ''prompt_tokens=512,output_tokens=256''])
                            else Inl SyntaxError),
      float_of_str = (\<lambda>s. Inl ValueError)\<rparr>"

definition one_entry_file :: "pyval \<Rightarrow> pyval" where
  "one_entry_file entry = PDict [(''benchmarks'', PList [entry])]"

text \<open>
  An entry whose strategy has a concurrency bound and a constant rate, with one
  successful request.
\<close>

definition both_axes_entry :: pyval where
  "both_axes_entry =
     PDict
       [(''config'', PDict [(''strategy'', PDict
           [(''type_'', PStr ''constant''), (''rate'', PFloat (Fin 10)),
            (''max_concurrency'', PInt 4)])]),
        (''requests'', PDict [(''successful'', PList [PDict [(''request_id'', PStr ''r1'')]])])]"

text \<open>An entry with no successful throughput: mean 0 in \<open>successful\<close>, 42 in \<open>total\<close>.\<close>

definition zero_successful_entry :: pyval where
  "zero_successful_entry =
     PDict
       [(''config'', PDict [(''strategy'', PDict [(''max_concurrency'', PInt 4)])]),
        (''metrics'', PDict
           [(''output_tokens_per_second'', PDict
               [(''successful'', PDict [(''mean'', PInt 0)]),
                (''total'', PDict [(''mean'', PInt 42)])]),
            (''tokens_per_second'', PDict
               [(''successful'', PDict [(''mean'', PInt 7)]),
                (''total'', PDict [(''mean'', PInt 9)])])])]"

text \<open>
  An entry that started at time 5, with one request whose \<open>start_time\<close> is 0, whose
  first token came at 7 and which ended at 12.
\<close>

definition relative_entry :: pyval where
  "relative_entry =
     PDict
       [(''start_time'', PInt 5),
        (''config'', PDict [(''strategy'', PDict [(''max_concurrency'', PInt 4)])]),
        (''requests'', PDict [(''successful'', PList [PDict
           [(''start_time'', PInt 0), (''first_token_time'', PInt 7),
            (''end_time'', PInt 12)]])])]"

text \<open>
  An entry that started at time 5 with two successful requests, the second of which has
  a null \<open>first_token_time\<close>.
\<close>

definition null_time_entry :: pyval where
  "null_time_entry =
     PDict
       [(''start_time'', PInt 5),
        (''config'', PDict [(''strategy'', PDict [(''max_concurrency'', PInt 4)])]),
        (''requests'', PDict [(''successful'', PList
           [PDict [(''start_time'', PInt 6), (''first_token_time'', PInt 7),
                   (''end_time'', PInt 12)],
            PDict [(''start_time'', PInt 6), (''first_token_time'', PNone),
                   (''end_time'', PInt 12)]])])]"

text \<open>Entries whose \<open>request_loader\<close> is an empty mapping, respectively null.\<close>

definition empty_loader_entry :: pyval where
  "empty_loader_entry =
     PDict
       [(''config'', PDict [(''strategy'', PDict [(''max_concurrency'', PInt 4)])]),
        (''request_loader'', PDict []),
        (''requests'', PDict [(''successful'', PList [PDict [(''request_id'', PStr ''r1'')]])])]"

definition null_loader_entry :: pyval where
  "null_loader_entry =
     PDict
       [(''config'', PDict [(''strategy'', PDict [(''max_concurrency'', PInt 4)])]),
        (''request_loader'', PNone),
        (''requests'', PDict [(''successful'', PList [PDict [(''request_id'', PStr ''r1'')]])])]"

text \<open>
  An entry with the fields of both variants, with different values, and the same entry
  without the Variant-B fields.
\<close>

definition variant_a_fields :: "(string \<times> pyval) list" where
  "variant_a_fields =
     [(''config'', PDict
         [(''strategy'', PDict [(''max_concurrency'', PInt 4)]),
          (''profile'', PDict [(''strategy_type'', PStr ''concurrent'')]),
          (''requests'', PDict [(''data'', PStr settings_literal), (''processor'', PStr ''a'')])]),
      (''requests'', PDict [(''successful'', PList [PDict
         [(''request_start_time'', PInt 3), (''start_time'', PInt 1),
          (''request_end_time'', PInt 9), (''end_time'', PInt 2)]])])]"

definition both_variants_fields :: "(string \<times> pyval) list" where
  "both_variants_fields =
     [(''args'', PDict
         [(''strategy'', PDict [(''streams'', PInt 8)]),
          (''profile'', PDict [(''strategy_type'', PStr ''constant''), (''rate'', PList [PInt 2])])]),
      (''request_loader'', PDict [(''processor'', PStr ''b'')])] @ variant_a_fields"

text \<open>
  An entry whose Variant-A sub-trees are present and empty, beside Variant-B sub-trees
  that hold values.
\<close>

definition empty_variant_a_entry :: pyval where
  "empty_variant_a_entry =
     PDict
       [(''config'', PDict
           [(''strategy'', PDict []), (''profile'', PDict []), (''requests'', PDict [])]),
        (''args'', PDict
           [(''strategy'', PDict [(''streams'', PInt 8)]),
            (''profile'', PDict [(''strategy_type'', PStr ''concurrent'')])]),
        (''request_loader'',
           PDict [(''data'', PStr settings_literal), (''processor'', PStr ''b'')])]"

text \<open>A table with concurrency 1, 2, 4 and 8, and no \<open>rps\<close> column.\<close>

definition levels_table :: dataframe where
  "levels_table =
     \<lparr>columns = [''filename'', ''concurrency''],
      rows = [[(''filename'', PStr ''a''), (''concurrency'', PInt 1)],
              [(''filename'', PStr ''b''), (''concurrency'', PInt 2)],
              [(''filename'', PStr ''c''), (''concurrency'', PInt 4)],
              [(''filename'', PStr ''d''), (''concurrency'', PInt 8)]]\<rparr>"

text \<open>A table of two summary rows, and a conversion to text that knows their cells.\<close>

definition tokens_table :: dataframe where
  "tokens_table =
     \<lparr>columns = [''prompt_tokens'', ''output_tokens''],
      rows = [[(''prompt_tokens'', PInt 512), (''output_tokens'', PInt 256)],
              [(''prompt_tokens'', PInt 400), (''output_tokens'', PInt 200)]]\<rparr>"

definition example_str :: "pyval \<Rightarrow> string" where
  "example_str v =
     (if v = PInt 512 then ''512'' else if v = PInt 256 then ''256''
      else if v = PInt 400 then ''400'' else if v = PInt 200 then ''200'' else ''nan'')"

section \<open>Properties\<close>

subsection \<open>Auxiliary facts\<close>

lemma ebind_Inr [simp]: "ebind (Inr x) f = f x"
  by (simp add: ebind_def)

lemma ebind_Inl [simp]: "ebind (Inl e) f = Inl e"
  by (simp add: ebind_def)

lemma ebind_eq_Inr: "ebind m f = Inr y \<longleftrightarrow> (\<exists>x. m = Inr x \<and> f x = Inr y)"
  by (cases m) simp_all

lemma map_of_dict_update: "k \<notin> fst ` set e \<Longrightarrow> map_of (dict_update d e) k = map_of d k"
  unfolding dict_update_def
  by (induction e arbitrary: d) (auto simp: update_conv')

lemma map_of_add_metadata:
  "\<not> overrides md k \<Longrightarrow> map_of (add_metadata md r) k = map_of r k"
  by (auto simp: overrides_def add_metadata_def map_of_dict_update split: option.splits)

lemma summary_row_fields:
  assumes "summary_row fn fp c p settings b = Inr raw"
  shows "\<exists>metrics out tot.
    py_get b ''metrics'' (PDict []) = Inr metrics \<and>
    tps_mean metrics ''output_tokens_per_second'' = Inr out \<and>
    tps_mean metrics ''tokens_per_second'' = Inr tot \<and>
    map_of raw ''concurrency'' = Some c \<and>
    map_of raw ''rps'' = Some p \<and>
    map_of raw ''prompt_tokens'' = Some (dict_get settings ''prompt_tokens'' (PInt 0)) \<and>
    map_of raw ''prompt_tokens_stdev'' = Some (dict_get settings ''prompt_tokens_stdev'' (PInt 0)) \<and>
    map_of raw ''output_tokens'' = Some (dict_get settings ''output_tokens'' (PInt 0)) \<and>
    map_of raw ''output_tokens_stdev'' = Some (dict_get settings ''output_tokens_stdev'' (PInt 0)) \<and>
    map_of raw ''processor'' = Some (dict_get settings ''processor'' (PStr [])) \<and>
    map_of raw ''mean_output_tokens_per_second'' = Some out \<and>
    map_of raw ''mean_total_tokens_per_second'' = Some tot"
  using assms
  by (auto simp: summary_row_def ebind_eq_Inr)

lemma summary_entry_row:
  assumes "summary_entry rt fn fp md b = Inr (rs, ds)" and "r \<in> set rs"
  shows "\<exists>config args c p settings raw.
    py_get b ''config'' (PDict []) = Inr config \<and>
    py_get b ''args'' (PDict []) = Inr args \<and>
    resolve_axis rt config args = Inr (c, p) \<and>
    (c \<noteq> PNone \<or> p \<noteq> PNone) \<and>
    entry_dataset_settings rt config b = Inr settings \<and>
    summary_row fn fp c p settings b = Inr raw \<and>
    rs = [r] \<and> ds = [] \<and> r = add_metadata md raw"
  using assms
  by (auto simp: summary_entry_def ebind_eq_Inr split: if_splits)

lemma request_row_fields:
  assumes "request_row fn fp t0 c p settings req = Inr raw"
  shows "\<exists>first_t start_t end_t rel.
    py_get req ''first_token_time'' (PInt 0) = Inr first_t \<and>
    ebind (py_get req ''start_time'' (PInt 0)) (\<lambda>d. py_get req ''request_start_time'' d)
      = Inr start_t \<and>
    ebind (py_get req ''end_time'' (PInt 0)) (\<lambda>d. py_get req ''request_end_time'' d)
      = Inr end_t \<and>
    relative_times t0 first_t start_t end_t = Inr rel \<and>
    map_of raw ''concurrency'' = Some c \<and>
    map_of raw ''rps'' = Some p \<and>
    map_of raw ''dataset_prompt_tokens'' = Some (dict_get settings ''prompt_tokens'' (PInt 0)) \<and>
    map_of raw ''dataset_output_tokens'' = Some (dict_get settings ''output_tokens'' (PInt 0)) \<and>
    map_of raw ''first_token_time'' = Some first_t \<and>
    map_of raw ''start_time'' = Some start_t \<and>
    map_of raw ''end_time'' = Some end_t \<and>
    map_of raw ''first_token_time_relative'' = Some (fst rel) \<and>
    map_of raw ''start_time_relative'' = Some (fst (snd rel)) \<and>
    map_of raw ''end_time_relative'' = Some (snd (snd rel))"
  using assms
  by (auto simp: request_row_def ebind_eq_Inr)

lemma map_result_member:
  "map_result f xs = Inr ys \<Longrightarrow> y \<in> set ys \<Longrightarrow> \<exists>x \<in> set xs. f x = Inr y"
  by (induction xs arbitrary: ys) (auto simp: ebind_eq_Inr)

lemma requests_entry_row:
  assumes "requests_entry rt fn fp md b = Inr (rs, ds)" and "r \<in> set rs"
  shows "\<exists>run_stats run_start t0 config args c p settings requests successful reqs req raw.
    py_get b ''run_stats'' (PDict []) = Inr run_stats \<and>
    py_get run_stats ''start_time'' PNone = Inr run_start \<and>
    (if run_start = PNone then py_get b ''start_time'' PNone else Inr run_start) = Inr t0 \<and>
    py_get b ''config'' (PDict []) = Inr config \<and>
    py_get b ''args'' (PDict []) = Inr args \<and>
    resolve_axis rt config args = Inr (c, p) \<and>
    (c \<noteq> PNone \<or> p \<noteq> PNone) \<and>
    entry_dataset_settings rt config b = Inr settings \<and>
    py_get b ''requests'' (PDict []) = Inr requests \<and>
    py_get requests ''successful'' (PList []) = Inr successful \<and>
    py_iter successful = Inr reqs \<and>
    req \<in> set reqs \<and>
    request_row fn fp t0 c p settings req = Inr raw \<and>
    r = add_metadata md raw"
proof -
  from assms(1) obtain run_stats run_start t0 config args axis where
    a: "py_get b ''run_stats'' (PDict []) = Inr run_stats"
       "py_get run_stats ''start_time'' PNone = Inr run_start"
       "(if run_start = PNone then py_get b ''start_time'' PNone else Inr run_start) = Inr t0"
       "py_get b ''config'' (PDict []) = Inr config"
       "py_get b ''args'' (PDict []) = Inr args"
       "resolve_axis rt config args = Inr axis"
    and rest: "(if fst axis = PNone \<and> snd axis = PNone then Inr ([], [NoAxisFound fp])
       else
         ebind (entry_dataset_settings rt config b) (\<lambda>dataset_settings.
         ebind (py_get b ''requests'' (PDict [])) (\<lambda>requests.
         ebind (py_get requests ''successful'' (PList [])) (\<lambda>successful_requests.
           if \<not> truthy successful_requests then Inr ([], [NoSuccessfulRequests fp])
           else
             ebind (request_label (fst axis) (snd axis)) (\<lambda>label.
             ebind (py_len successful_requests) (\<lambda>n.
             ebind (py_iter successful_requests) (\<lambda>reqs.
             ebind (map_result
                      (request_row fn fp t0 (fst axis) (snd axis)
                         dataset_settings) reqs) (\<lambda>new_rows.
               Inr (map (add_metadata md) new_rows,
                    [FoundRequests n fn label])))))))))
        = Inr (rs, ds)"
    unfolding requests_entry_def ebind_eq_Inr by blast
  from assms(2) rest have ax: "fst axis \<noteq> PNone \<or> snd axis \<noteq> PNone"
    by (auto split: if_splits)
  with rest assms(2) obtain settings requests successful reqs new_rows where
    b: "entry_dataset_settings rt config b = Inr settings"
       "py_get b ''requests'' (PDict []) = Inr requests"
       "py_get requests ''successful'' (PList []) = Inr successful"
       "py_iter successful = Inr reqs"
       "map_result (request_row fn fp t0 (fst axis) (snd axis) settings) reqs = Inr new_rows"
       "rs = map (add_metadata md) new_rows"
    by (auto simp: ebind_eq_Inr split: if_splits)
  from b(6) assms(2) obtain raw where raw: "raw \<in> set new_rows" "r = add_metadata md raw"
    by auto
  from map_result_member[OF b(5) raw(1)] obtain req where
    "req \<in> set reqs" "request_row fn fp t0 (fst axis) (snd axis) settings req = Inr raw"
    by blast
  with a b raw ax show ?thesis
    by (cases axis) auto
qed

lemma collect_member:
  "collect f xs = Inr (rs, ds) \<Longrightarrow> r \<in> set rs \<Longrightarrow>
     \<exists>x \<in> set xs. \<exists>rs' ds'. f x = Inr (rs', ds') \<and> r \<in> set rs'"
  by (induction xs arbitrary: rs ds) (auto simp: ebind_eq_Inr)

text \<open>Every row that an extractor returns was produced by the loop body on an entry.\<close>

lemma parse_benchmark_metrics_member:
  assumes "r \<in> set (rows_of (parse_benchmark_metrics rt fp md))"
  shows "\<exists>b rs ds. summary_entry rt (basename fp) fp md b = Inr (rs, ds) \<and> r \<in> set rs"
proof -
  from assms obtain rs ds where
    "parse_benchmark_metrics rt fp md = Inr (rs, ds)" and "r \<in> set rs"
    by (cases "parse_benchmark_metrics rt fp md") (auto simp: rows_of_def)
  then show ?thesis
    by (auto simp: parse_benchmark_metrics_def ebind_eq_Inr
        split: option.splits if_splits dest!: collect_member)
qed

lemma parse_individual_requests_member:
  assumes "r \<in> set (rows_of (parse_individual_requests rt fp md))"
  shows "\<exists>b rs ds. requests_entry rt (basename fp) fp md b = Inr (rs, ds) \<and> r \<in> set rs"
proof -
  from assms obtain rs ds where
    "parse_individual_requests rt fp md = Inr (rs, ds)" and "r \<in> set rs"
    by (cases "parse_individual_requests rt fp md") (auto simp: rows_of_def)
  then show ?thesis
    by (auto simp: parse_individual_requests_def ebind_eq_Inr
        split: option.splits if_splits dest!: collect_member)
qed

lemma summary_entry_axis_present:
  assumes "summary_entry rt fn fp md b = Inr (rs, ds)" and "r \<in> set rs"
    and "\<not> overrides md ''concurrency''" and "\<not> overrides md ''rps''"
  shows "axis_present r"
proof -
  from summary_entry_row[OF assms(1,2)] obtain c p settings raw where
    ax: "c \<noteq> PNone \<or> p \<noteq> PNone"
    and raw: "summary_row fn fp c p settings b = Inr raw" "r = add_metadata md raw"
    by blast
  from summary_row_fields[OF raw(1)]
  have "map_of raw ''concurrency'' = Some c" "map_of raw ''rps'' = Some p"
    by auto
  with ax raw(2) assms(3,4) show ?thesis
    by (simp add: axis_present_def map_of_add_metadata)
qed

lemma requests_entry_axis_present:
  assumes "requests_entry rt fn fp md b = Inr (rs, ds)" and "r \<in> set rs"
    and "\<not> overrides md ''concurrency''" and "\<not> overrides md ''rps''"
  shows "axis_present r"
proof -
  from requests_entry_row[OF assms(1,2)] obtain t0 c p settings req raw where
    ax: "c \<noteq> PNone \<or> p \<noteq> PNone"
    and raw: "request_row fn fp t0 c p settings req = Inr raw" "r = add_metadata md raw"
    by blast
  from request_row_fields[OF raw(1)]
  have "map_of raw ''concurrency'' = Some c" "map_of raw ''rps'' = Some p"
    by auto
  with ax raw(2) assms(3,4) show ?thesis
    by (simp add: axis_present_def map_of_add_metadata)
qed

lemma py_get_dict: "py_get d k dflt = Inr v \<Longrightarrow> \<exists>kvs. d = PDict kvs \<and> v = dict_get kvs k dflt"
  by (cases d) (simp_all add: dict_get_def)

lemma rows_of_member:
  "r \<in> set (rows_of res) \<longleftrightarrow> (\<exists>rs ds. res = Inr (rs, ds) \<and> r \<in> set rs)"
  by (cases res) (auto simp: rows_of_def)

lemma file_entries_iter:
  assumes "load_json_file rt fp = Some data"
    and "py_get data ''benchmarks'' (PList []) = Inr benchmarks"
    and "py_iter benchmarks = Inr es"
  shows "file_entries rt fp = es"
  using assms
  by (cases data) (auto simp: file_entries_def split: option.splits)

lemma parse_benchmark_metrics_entry:
  assumes "r \<in> set (rows_of (parse_benchmark_metrics rt fp md))"
  shows "\<exists>b \<in> set (file_entries rt fp).
           r \<in> set (rows_of (summary_entry rt (basename fp) fp md b))"
proof -
  from assms obtain rs ds where
    p: "parse_benchmark_metrics rt fp md = Inr (rs, ds)" and r: "r \<in> set rs"
    unfolding rows_of_member by blast
  from p r obtain data benchmarks es where
    d: "load_json_file rt fp = Some data"
       "py_get data ''benchmarks'' (PList []) = Inr benchmarks"
       "py_iter benchmarks = Inr es"
       "collect (summary_entry rt (basename fp) fp md) es = Inr (rs, ds)"
    by (auto simp: parse_benchmark_metrics_def ebind_eq_Inr split: option.splits if_splits)
  from collect_member[OF d(4) r] obtain b rs' ds' where
    "b \<in> set es" "summary_entry rt (basename fp) fp md b = Inr (rs', ds')" "r \<in> set rs'"
    by blast
  with file_entries_iter[OF d(1-3)] show ?thesis
    unfolding rows_of_member by blast
qed

lemma get_mean_bucket_mean:
  assumes "py_get b ''metrics'' (PDict []) = Inr metrics"
    and "get_mean metrics name bucket = Inr v"
  shows "bucket_mean b name bucket = v"
  using assms
  by (auto simp: get_mean_def get_bucket_def ebind_eq_Inr bucket_mean_def dict_get_def
      dest!: py_get_dict split: option.splits)

lemma tps_mean_throughput_mean:
  assumes "py_get b ''metrics'' (PDict []) = Inr metrics"
    and "tps_mean metrics name = Inr v"
  shows "throughput_mean b name = v"
  using assms
  by (auto simp: tps_mean_def throughput_mean_def ebind_eq_Inr get_mean_bucket_mean
      split: if_splits)

lemma parse_individual_requests_entry:
  assumes "r \<in> set (rows_of (parse_individual_requests rt fp md))"
  shows "\<exists>b \<in> set (file_entries rt fp).
           r \<in> set (rows_of (requests_entry rt (basename fp) fp md b))"
proof -
  from assms obtain rs ds where
    p: "parse_individual_requests rt fp md = Inr (rs, ds)" and r: "r \<in> set rs"
    unfolding rows_of_member by blast
  from p r obtain data benchmarks es where
    d: "load_json_file rt fp = Some data"
       "py_get data ''benchmarks'' (PList []) = Inr benchmarks"
       "py_iter benchmarks = Inr es"
       "collect (requests_entry rt (basename fp) fp md) es = Inr (rs, ds)"
    by (auto simp: parse_individual_requests_def ebind_eq_Inr split: option.splits if_splits)
  from collect_member[OF d(4) r] obtain b rs' ds' where
    "b \<in> set es" "requests_entry rt (basename fp) fp md b = Inr (rs', ds')" "r \<in> set rs'"
    by blast
  with file_entries_iter[OF d(1-3)] show ?thesis
    unfolding rows_of_member by blast
qed

lemma py_sub_not_None: "py_sub a b = Inr v \<Longrightarrow> v \<noteq> PNone"
  by (cases a; cases b) (auto simp: py_sub_def ebind_eq_Inr)

lemma relative_time_ok:
  assumes "t0 \<noteq> PNone" and "relative_time a t0 = Inr v"
  shows "relative_ok t0 a v"
  using assms
  by (auto simp: relative_time_def relative_ok_def ebind_eq_Inr
      dest: py_sub_not_None split: if_splits)

lemma relative_times_ok:
  assumes "relative_times t0 f s e = Inr rel"
  shows "relative_ok t0 f (fst rel) \<and> relative_ok t0 s (fst (snd rel)) \<and>
         relative_ok t0 e (snd (snd rel))"
proof (cases "t0 = PNone")
  case True
  with assms show ?thesis
    by (auto simp: relative_times_def relative_ok_def)
next
  case False
  with assms show ?thesis
    by (auto simp: relative_times_def ebind_eq_Inr relative_time_ok)
qed

lemma run_start_time_eq:
  assumes "py_get b ''run_stats'' (PDict []) = Inr run_stats"
    and "py_get run_stats ''start_time'' PNone = Inr run_start"
    and "(if run_start = PNone then py_get b ''start_time'' PNone else Inr run_start) = Inr t0"
  shows "run_start_time b = t0"
  using assms
  by (auto simp: run_start_time_def dict_get_def dest!: py_get_dict
      split: option.splits if_splits)

lemma extract_dataset_settings_empty: "extract_dataset_settings rt (PDict []) = Inr []"
  by (simp add: extract_dataset_settings_def)

lemma falsy_requests:
  assumes "falsy_at b [''config'', ''requests'']"
    and "py_get b ''config'' (PDict []) = Inr config"
    and "py_get config ''requests'' (PDict []) = Inr rc"
  shows "\<not> truthy rc"
proof -
  from assms(2) obtain kvs where b: "b = PDict kvs" "config = dict_get kvs ''config'' (PDict [])"
    by (auto dest: py_get_dict)
  from assms(3) obtain c where c: "config = PDict c" "rc = dict_get c ''requests'' (PDict [])"
    by (auto dest: py_get_dict)
  show ?thesis
  proof (cases "map_of kvs ''config''")
    case None
    with b c show ?thesis by (simp add: dict_get_def)
  next
    case (Some v)
    with b c assms(1) show ?thesis
      by (auto simp: dict_get_def falsy_at_def split: option.splits)
  qed
qed

lemma entry_dataset_settings_empty:
  assumes "no_loader_info b" and "py_get b ''config'' (PDict []) = Inr config"
    and "entry_dataset_settings rt config b = Inr settings"
  shows "settings = []"
proof -
  from assms(3) obtain rc rl where
    g: "py_get config ''requests'' (PDict []) = Inr rc"
       "py_get b ''request_loader'' (PDict []) = Inr rl"
       "extract_dataset_settings rt (if truthy rc then rc else rl) = Inr settings"
    unfolding entry_dataset_settings_def ebind_eq_Inr by blast
  from assms(1) have f: "falsy_at b [''config'', ''requests'']"
    by (simp add: no_loader_info_def)
  have rc: "\<not> truthy rc" by (rule falsy_requests[OF f assms(2) g(1)])
  from g(2) assms(1) have "rl = PDict []"
    by (auto simp: no_loader_info_def dict_get_def dest!: py_get_dict split: option.splits)
  with rc g(3) show ?thesis
    by (simp add: extract_dataset_settings_empty)
qed

lemma list_format_not_shaped:
  "\<not> list_shaped s \<Longrightarrow> list_format rt loader (PStr s) = Inr None"
  by (auto simp: list_format_def list_shaped_def)

lemma variant_a_config:
  assumes "variant_a_complete (PDict e)"
  obtains c s p q where "map_of e ''config'' = Some (PDict c)"
    "map_of c ''strategy'' = Some s" "truthy s"
    "map_of c ''profile'' = Some p" "truthy p"
    "map_of c ''requests'' = Some q" "truthy q"
proof -
  from assms obtain v where v: "map_of e ''config'' = Some v"
    by (auto simp: variant_a_complete_def truthy_at_def split: option.splits)
  with assms obtain c where c: "v = PDict c"
    by (cases v) (auto simp: variant_a_complete_def truthy_at_def)
  from assms v c show ?thesis
    by (auto simp: variant_a_complete_def truthy_at_def split: option.splits intro: that)
qed

lemma resolve_axis_config_only:
  assumes "map_of c ''strategy'' = Some s" "truthy s" "map_of c ''profile'' = Some p" "truthy p"
  shows "resolve_axis rt (PDict c) a' = resolve_axis rt (PDict c) a"
  using assms by (simp add: resolve_axis_def)

lemma entry_dataset_settings_config_only:
  assumes "map_of c ''requests'' = Some q" "truthy q"
  shows "entry_dataset_settings rt (PDict c) (PDict e') = entry_dataset_settings rt (PDict c) (PDict e)"
  using assms by (simp add: entry_dataset_settings_def)

lemma summary_row_metrics_only:
  assumes "map_of e' ''metrics'' = map_of e ''metrics''"
  shows "summary_row fn fp c p settings (PDict e') = summary_row fn fp c p settings (PDict e)"
  using assms by (simp add: summary_row_def)

lemma select_filter: "map fst (filter snd (zip xs (map P xs))) = filter P xs"
  by (induction xs) auto

lemma select_rows_filter: "select_rows df (map P (rows df)) = df\<lparr>rows := filter P (rows df)\<rparr>"
  by (simp add: select_rows_def select_filter)

lemma isin_iff: "isin v ls \<longleftrightarrow> (\<exists>l \<in> set ls. cell_eq v l)"
  by (simp add: isin_def list_ex_iff)

lemma cell_update_other: "k \<noteq> c \<Longrightarrow> cell (AList.update c v r) k = cell r k"
  by (simp add: cell_def dict_get_def update_conv')

lemma cell_update_same: "cell (AList.update c v r) c = v"
  by (simp add: cell_def dict_get_def update_conv')

lemma update_update: "AList.update c v (AList.update c v r) = AList.update c v r"
  by (induction r) auto

lemma set_column_dataset_ids:
  "rows (set_column df ''dataset_id''
      (dataset_ids f (map (\<lambda>r. cell r pk) (rows df)) (map (\<lambda>r. cell r ok) (rows df))))
   = map (with_dataset_id f pk ok) (rows df)"
proof -
  have "map (\<lambda>rv. AList.update ''dataset_id'' (snd rv) (fst rv))
          (zip xs (map (\<lambda>po. PStr (f (fst po) @ ''-'' @ f (snd po)))
             (zip (map (\<lambda>r. cell r pk) xs) (map (\<lambda>r. cell r ok) xs))))
        = map (with_dataset_id f pk ok) xs" for xs
    by (induction xs) (simp_all add: with_dataset_id_def)
  then show ?thesis
    by (simp add: set_column_def dataset_ids_def)
qed

lemma with_dataset_id_idem:
  assumes "pk \<noteq> ''dataset_id''" "ok \<noteq> ''dataset_id''"
  shows "with_dataset_id f pk ok (with_dataset_id f pk ok r) = with_dataset_id f pk ok r"
  using assms by (simp add: with_dataset_id_def cell_update_other update_update)

lemma create_from_columns:
  assumes "pk \<in> set (columns df)" "ok \<in> set (columns df)"
  shows "ebind (column df pk) (\<lambda>ps. ebind (column df ok) (\<lambda>os.
           Inr (set_column df ''dataset_id'' (dataset_ids f ps os))))
         = Inr \<lparr>columns = (if ''dataset_id'' \<in> set (columns df) then columns df
                           else columns df @ [''dataset_id'']),
                rows = map (with_dataset_id f pk ok) (rows df)\<rparr>"
  using assms set_column_dataset_ids[of df f pk ok]
  by (simp add: column_def set_column_def)

lemma create_from_columns_twice:
  assumes "pk \<noteq> ''dataset_id''" "ok \<noteq> ''dataset_id''"
    and d: "ebind (column df pk) (\<lambda>ps. ebind (column df ok) (\<lambda>os.
           Inr (set_column df ''dataset_id'' (dataset_ids f ps os)))) = Inr df1"
  shows "ebind (column df1 pk) (\<lambda>ps. ebind (column df1 ok) (\<lambda>os.
           Inr (set_column df1 ''dataset_id'' (dataset_ids f ps os)))) = Inr df1 \<and>
         (\<forall>k. k \<noteq> ''dataset_id'' \<longrightarrow> (k \<in> set (columns df1)) = (k \<in> set (columns df)))"
proof -
  from d have c: "pk \<in> set (columns df)" "ok \<in> set (columns df)"
    by (auto simp: ebind_eq_Inr column_def split: if_splits)
  from create_from_columns[OF c, of f] d
  have df1: "df1 = \<lparr>columns = (if ''dataset_id'' \<in> set (columns df) then columns df
                           else columns df @ [''dataset_id'']),
                rows = map (with_dataset_id f pk ok) (rows df)\<rparr>"
    by simp
  then have m: "pk \<in> set (columns df1)" "ok \<in> set (columns df1)"
    "''dataset_id'' \<in> set (columns df1)"
    using c by auto
  from create_from_columns[OF m(1,2), of f] m(3) df1 assms(1,2)
  have "ebind (column df1 pk) (\<lambda>ps. ebind (column df1 ok) (\<lambda>os.
           Inr (set_column df1 ''dataset_id'' (dataset_ids f ps os)))) = Inr df1"
    by (simp add: with_dataset_id_idem)
  moreover from df1 have "\<forall>k. k \<noteq> ''dataset_id'' \<longrightarrow> (k \<in> set (columns df1)) = (k \<in> set (columns df))"
    by auto
  ultimately show ?thesis by simp
qed

text \<open>The string methods do what their names say.\<close>

lemma split_on_not_Nil: "split_on c s \<noteq> []"
  by (induction s) (auto split: list.splits)

lemma join_split_on: "join_with c (split_on c s) = s"
proof (induction s)
  case Nil
  show ?case by simp
next
  case (Cons x xs)
  obtain y ys where y: "split_on c xs = y # ys"
    using split_on_not_Nil[of c xs] by (cases "split_on c xs") auto
  with Cons show ?case
    by (cases ys) auto
qed

lemma split_on_pieces: "p \<in> set (split_on c s) \<Longrightarrow> c \<notin> set p"
  by (induction s arbitrary: p) (auto split: if_splits list.splits)

lemma split_first_parts:
  assumes "c \<in> set s" and "split_first c s = (k, v)"
  shows "s = k @ c # v \<and> c \<notin> set k"
proof -
  from assms(1) have "dropWhile (\<lambda>x. x \<noteq> c) s \<noteq> []"
    by (simp add: dropWhile_eq_Nil_conv)
  then obtain z zs where z: "dropWhile (\<lambda>x. x \<noteq> c) s = z # zs"
    by (cases "dropWhile (\<lambda>x. x \<noteq> c) s") auto
  then have "z = c"
    using hd_dropWhile[of "\<lambda>x. x \<noteq> c" s] by auto
  with z assms(2) takeWhile_dropWhile_id[of "\<lambda>x. x \<noteq> c" s] show ?thesis
    by (auto simp: split_first_def dest: set_takeWhileD)
qed

text \<open>A request whose timestamps are numbers yields a row.\<close>

lemma numeric_gt_zero: "numeric v \<Longrightarrow> \<exists>b. py_gt_zero v = Inr b"
  by (cases v rule: py_gt_zero.cases) (auto simp: numeric_def)

lemma numeric_as_float: "numeric v \<Longrightarrow> \<exists>f. as_float v = Inr f"
  by (cases v) (simp_all add: numeric_def float_of_int_def float_int_limit_def)

lemma numeric_sub:
  assumes "numeric a" "numeric b" shows "\<exists>v. py_sub a b = Inr v"
proof -
  from numeric_as_float[OF assms(1)] numeric_as_float[OF assms(2)]
  obtain x y where "as_float a = Inr x" "as_float b = Inr y" by blast
  then show ?thesis
    using assms by (cases a; cases b) (simp_all add: py_sub_def numeric_def)
qed

lemma numeric_relative_time:
  assumes "numeric t" "numeric t0" shows "\<exists>v. relative_time t t0 = Inr v"
  using numeric_gt_zero[OF assms(1)] numeric_sub[OF assms]
  by (auto simp: relative_time_def)

lemma request_row_returns:
  assumes "t0 = PNone \<or>
     (numeric t0 \<and> numeric (dict_get r ''first_token_time'' (PInt 0)) \<and>
      numeric (dict_get r ''request_start_time'' (dict_get r ''start_time'' (PInt 0))) \<and>
      numeric (dict_get r ''request_end_time'' (dict_get r ''end_time'' (PInt 0))))"
  shows "\<exists>raw. request_row fn fp t0 c p settings (PDict r) = Inr raw"
proof -
  have "\<exists>rel. relative_times t0 (dict_get r ''first_token_time'' (PInt 0))
      (dict_get r ''request_start_time'' (dict_get r ''start_time'' (PInt 0)))
      (dict_get r ''request_end_time'' (dict_get r ''end_time'' (PInt 0))) = Inr rel"
  proof (cases "t0 = PNone")
    case True
    then show ?thesis by (simp add: relative_times_def)
  next
    case False
    with assms have n: "numeric t0" "numeric (dict_get r ''first_token_time'' (PInt 0))"
      "numeric (dict_get r ''request_start_time'' (dict_get r ''start_time'' (PInt 0)))"
      "numeric (dict_get r ''request_end_time'' (dict_get r ''end_time'' (PInt 0)))"
      by simp_all
    from numeric_relative_time[OF n(2) n(1)] numeric_relative_time[OF n(3) n(1)]
      numeric_relative_time[OF n(4) n(1)] False
    show ?thesis by (auto simp: relative_times_def)
  qed
  then obtain rel where "relative_times t0 (dict_get r ''first_token_time'' (PInt 0))
      (dict_get r ''request_start_time'' (dict_get r ''start_time'' (PInt 0)))
      (dict_get r ''request_end_time'' (dict_get r ''end_time'' (PInt 0))) = Inr rel"
    by blast
  then show ?thesis
    by (simp add: request_row_def dict_get_def)
qed

lemma json_format_decode_failure:
  "json_loads rt s = Inl JSONDecodeError \<Longrightarrow> json_format rt loader (PStr s) = Inr []"
  by (simp add: json_format_def)

lemma json_format_object:
  "json_loads rt s = Inr (PDict d) \<Longrightarrow>
   json_format rt (PDict loader) (PStr s) =
     Inr [(''prompt_tokens'', dict_get d ''prompt_tokens'' (PInt 0)),
          (''prompt_tokens_stdev'', dict_get d ''prompt_tokens_stdev'' (PInt 0)),
          (''output_tokens'', dict_get d ''output_tokens'' (PInt 0)),
          (''output_tokens_stdev'', dict_get d ''output_tokens_stdev'' (PInt 0)),
          (''processor'', dict_get loader ''processor'' (PStr []))]"
  by (simp add: json_format_def dict_get_def)

text \<open>A null absolute value under a known run start makes the comparison raise.\<close>

lemma relative_time_null: "relative_time PNone t0 = Inl TypeError"
  by (simp add: relative_time_def)

lemma relative_times_null:
  assumes "t0 \<noteq> PNone" and "f = PNone \<or> s = PNone \<or> e = PNone"
  shows "\<exists>err. relative_times t0 f s e = Inl err"
proof -
  have "relative_times t0 f s e \<noteq> Inr rel" for rel
  proof
    assume "relative_times t0 f s e = Inr rel"
    with assms(1) obtain a b c where "relative_time f t0 = Inr a" "relative_time s t0 = Inr b"
      "relative_time e t0 = Inr c"
      by (auto simp: relative_times_def ebind_eq_Inr)
    with assms(2) show False
      by (auto simp: relative_time_null)
  qed
  then show ?thesis
    by (cases "relative_times t0 f s e") auto
qed

subsection \<open>Evaluation of the examples\<close>

lemmas eval_defs =
  parse_benchmark_metrics_def parse_individual_requests_def summary_entry_def
  requests_entry_def summary_row_def request_row_def relative_times_def relative_time_def
  request_label_def resolve_axis_def entry_dataset_settings_def extract_dataset_settings_def
  list_format_def json_format_def default_settings_def tps_mean_def get_mean_def
  get_bucket_def add_metadata_def dict_update_def dict_get_def basename_def float_of_int_def
  float_int_limit_def py_sub_def rows_of_def example_runtime_def startswith_def endswith_def one_entry_file_def
  field_of_def list_shaped_def settings_literal_def split_first_def isdigit_def digit_char_def
  ascii_digit_def int_of_str_def

subsection \<open>The claims\<close>

text \<open>
  C7. Applied to a null loader, \<open>extract_dataset_settings\<close> returns exactly the record
  with prompt tokens 400, output tokens 200, both deviations 0 and processor
  \<open>multiturn\<close>, whatever the runtime.
\<close>

theorem extract_dataset_settings_null:
  "extract_dataset_settings rt PNone =
     Inr [(''prompt_tokens'', PInt 400),
          (''prompt_tokens_stdev'', PInt 0),
          (''output_tokens'', PInt 200),
          (''output_tokens_stdev'', PInt 0),
          (''processor'', PStr ''multiturn'')]"
  by (simp add: extract_dataset_settings_def default_settings_def)

text \<open>
  C1, as the code has it. Provided the extra metadata do not write over the two axis
  fields, every row emitted by \<open>parse_benchmark_metrics\<close> and by
  \<open>parse_individual_requests\<close> has both fields and at least one of them is not null;
  and an entry whose axis resolves to null for both is skipped with a diagnostic by either
  loop body. Nothing makes the two exclusive.
\<close>

theorem emitted_rows_axis_present:
  assumes "\<not> overrides md ''concurrency''" and "\<not> overrides md ''rps''"
  shows "list_all axis_present (rows_of (parse_benchmark_metrics rt fp md)) \<and>
         list_all axis_present (rows_of (parse_individual_requests rt fp md)) \<and>
         (py_get b ''config'' (PDict []) = Inr config \<and>
          py_get b ''args'' (PDict []) = Inr args \<and>
          resolve_axis rt config args = Inr (PNone, PNone) \<longrightarrow>
            summary_entry rt fn fp md b = Inr ([], [NoAxisFound fp]) \<and>
            (\<forall>run_stats t. py_get b ''run_stats'' (PDict []) = Inr run_stats \<and>
               py_get run_stats ''start_time'' PNone = Inr t \<longrightarrow>
               requests_entry rt fn fp md b = Inr ([], [NoAxisFound fp])))"
proof (intro conjI impI allI)
  show "list_all axis_present (rows_of (parse_benchmark_metrics rt fp md))"
    unfolding list_all_iff
    using parse_benchmark_metrics_member summary_entry_axis_present assms by blast
  show "list_all axis_present (rows_of (parse_individual_requests rt fp md))"
    unfolding list_all_iff
    using parse_individual_requests_member requests_entry_axis_present assms by blast
next
  assume h: "py_get b ''config'' (PDict []) = Inr config \<and>
          py_get b ''args'' (PDict []) = Inr args \<and>
          resolve_axis rt config args = Inr (PNone, PNone)"
  then show "summary_entry rt fn fp md b = Inr ([], [NoAxisFound fp])"
    by (simp add: summary_entry_def)
  fix run_stats t
  assume "py_get b ''run_stats'' (PDict []) = Inr run_stats \<and>
          py_get run_stats ''start_time'' PNone = Inr t"
  with h show "requests_entry rt fn fp md b = Inr ([], [NoAxisFound fp])"
    by (cases b) (simp_all add: requests_entry_def)
qed

theorem emitted_rows_axis_present_witness:
  "\<not> overrides None ''concurrency'' \<and> \<not> overrides None ''rps'' \<and>
   rows_of (parse_benchmark_metrics (example_runtime (one_entry_file both_axes_entry)) ''run.json'' None) \<noteq> [] \<and>
   list_all axis_present
     (rows_of (parse_benchmark_metrics (example_runtime (one_entry_file both_axes_entry)) ''run.json'' None)) \<and>
   rows_of (parse_individual_requests (example_runtime (one_entry_file both_axes_entry)) ''run.json'' None) \<noteq> [] \<and>
   list_all axis_present
     (rows_of (parse_individual_requests (example_runtime (one_entry_file both_axes_entry)) ''run.json'' None)) \<and>
   py_get (PDict []) ''config'' (PDict []) = Inr (PDict []) \<and>
   py_get (PDict []) ''args'' (PDict []) = Inr (PDict []) \<and>
   resolve_axis (example_runtime (one_entry_file both_axes_entry)) (PDict []) (PDict []) = Inr (PNone, PNone) \<and>
   summary_entry (example_runtime (one_entry_file both_axes_entry)) ''run.json'' ''run.json'' None (PDict [])
     = Inr ([], [NoAxisFound ''run.json''])"
proof -
  have h: "\<not> overrides None ''concurrency''" "\<not> overrides None ''rps''"
    by (simp_all add: overrides_def)
  have e: "rows_of (parse_benchmark_metrics (example_runtime (one_entry_file both_axes_entry)) ''run.json'' None) \<noteq> []"
    "rows_of (parse_individual_requests (example_runtime (one_entry_file both_axes_entry)) ''run.json'' None) \<noteq> []"
    by (simp_all add: eval_defs both_axes_entry_def)
  have a: "resolve_axis (example_runtime (one_entry_file both_axes_entry)) (PDict []) (PDict []) = Inr (PNone, PNone)"
    by (simp add: resolve_axis_def)
  from emitted_rows_axis_present[OF h, of "example_runtime (one_entry_file both_axes_entry)" "''run.json''"
      "PDict []" "PDict []" "PDict []" "''run.json''"] h e a
  show ?thesis by simp
qed

text \<open>
  C1 as stated fails: the entry \<open>both_axes_entry\<close> has \<open>max_concurrency\<close> 4 and a
  constant rate 10, and its summary row carries both.
\<close>

theorem axis_exclusive_counterexample:
  "\<not> list_all axis_exclusive
       (rows_of (parse_benchmark_metrics (example_runtime (one_entry_file both_axes_entry)) ''run.json'' None))"
  by (simp add: eval_defs both_axes_entry_def axis_exclusive_def)

text \<open>
  C4. Provided the extra metadata do not write over the two fields, the summary row of an
  entry has as mean output throughput and mean total throughput the mean of the
  \<open>successful\<close> bucket, and the mean of the \<open>total\<close> bucket when the former is 0 or
  absent; this holds for the row that the loop body appends for an entry, and so for
  every row that \<open>parse_benchmark_metrics\<close> returns, with respect to an entry of the file.
\<close>

theorem throughput_fallback:
  assumes "\<not> overrides md ''mean_output_tokens_per_second''"
    and "\<not> overrides md ''mean_total_tokens_per_second''"
  shows "(r \<in> set (rows_of (summary_entry rt fn fp md b)) \<longrightarrow>
            field_of ''mean_output_tokens_per_second'' r
              = Some (throughput_mean b ''output_tokens_per_second'') \<and>
            field_of ''mean_total_tokens_per_second'' r
              = Some (throughput_mean b ''tokens_per_second'')) \<and>
         (r \<in> set (rows_of (parse_benchmark_metrics rt fp md)) \<longrightarrow>
            (\<exists>e \<in> set (file_entries rt fp).
               field_of ''mean_output_tokens_per_second'' r
                 = Some (throughput_mean e ''output_tokens_per_second'') \<and>
               field_of ''mean_total_tokens_per_second'' r
                 = Some (throughput_mean e ''tokens_per_second'')))"
proof -
  have entry: "field_of ''mean_output_tokens_per_second'' r
              = Some (throughput_mean b ''output_tokens_per_second'') \<and>
            field_of ''mean_total_tokens_per_second'' r
              = Some (throughput_mean b ''tokens_per_second'')"
    if "r \<in> set (rows_of (summary_entry rt fn fp md b))" for fn b
  proof -
    from that obtain rs ds where "summary_entry rt fn fp md b = Inr (rs, ds)" "r \<in> set rs"
      unfolding rows_of_member by blast
    from summary_entry_row[OF this] obtain c p settings raw where
      raw: "summary_row fn fp c p settings b = Inr raw" "r = add_metadata md raw"
      by blast
    from summary_row_fields[OF raw(1)] obtain metrics out tot where
      m: "py_get b ''metrics'' (PDict []) = Inr metrics"
         "tps_mean metrics ''output_tokens_per_second'' = Inr out"
         "tps_mean metrics ''tokens_per_second'' = Inr tot"
         "map_of raw ''mean_output_tokens_per_second'' = Some out"
         "map_of raw ''mean_total_tokens_per_second'' = Some tot"
      by blast
    from m raw(2) assms show ?thesis
      by (simp add: field_of_def map_of_add_metadata tps_mean_throughput_mean)
  qed
  with parse_benchmark_metrics_entry show ?thesis
    by blast
qed

theorem throughput_fallback_witness:
  "\<not> overrides None ''mean_output_tokens_per_second'' \<and>
   \<not> overrides None ''mean_total_tokens_per_second'' \<and>
   throughput_mean zero_successful_entry ''output_tokens_per_second'' = PInt 42 \<and>
   throughput_mean zero_successful_entry ''tokens_per_second'' = PInt 7 \<and>
   map (field_of ''mean_output_tokens_per_second'')
     (rows_of (parse_benchmark_metrics (example_runtime (one_entry_file zero_successful_entry))
        ''run.json'' None)) = [Some (PInt 42)] \<and>
   map (field_of ''mean_total_tokens_per_second'')
     (rows_of (parse_benchmark_metrics (example_runtime (one_entry_file zero_successful_entry))
        ''run.json'' None)) = [Some (PInt 7)]"
proof -
  have h: "\<not> overrides None ''mean_output_tokens_per_second''"
    "\<not> overrides None ''mean_total_tokens_per_second''"
    by (simp_all add: overrides_def)
  have m: "throughput_mean zero_successful_entry ''output_tokens_per_second'' = PInt 42"
    "throughput_mean zero_successful_entry ''tokens_per_second'' = PInt 7"
    by (simp_all add: throughput_mean_def bucket_mean_def zero_successful_entry_def)
  have e: "rows_of (parse_benchmark_metrics (example_runtime (one_entry_file zero_successful_entry))
        ''run.json'' None) =
      rows_of (summary_entry (example_runtime (one_entry_file zero_successful_entry))
        ''run.json'' ''run.json'' None zero_successful_entry)"
    "length (rows_of (summary_entry (example_runtime (one_entry_file zero_successful_entry))
        ''run.json'' ''run.json'' None zero_successful_entry)) = 1"
    by (simp_all add: eval_defs zero_successful_entry_def)
  then obtain r where r: "rows_of (summary_entry (example_runtime (one_entry_file zero_successful_entry))
        ''run.json'' ''run.json'' None zero_successful_entry) = [r]"
    by (auto simp: length_Suc_conv)
  from throughput_fallback[OF h, of r "example_runtime (one_entry_file zero_successful_entry)"
      "''run.json''" "''run.json''" zero_successful_entry] r e(1) h m
  show ?thesis by simp
qed

text \<open>
  C5, where the code departs from it. When the run start time is known and one of the
  three absolute values of a request is null (the key is present and bound to null, so
  that \<open>get\<close> does not supply its default 0), the comparison \<open>> 0\<close> of lines 333, 338 and
  343 raises: no row is built for the request, with \<open>TypeError\<close> when the null value is
  \<open>first_token_time\<close>, and the relative field is not 0. A null run start time, in
  contrast, is taken as unknown and gives 0.
\<close>

theorem null_absolute_raises:
  assumes "t0 \<noteq> PNone"
    and "dict_get q ''first_token_time'' (PInt 0) = PNone \<or>
         dict_get q ''request_start_time'' (dict_get q ''start_time'' (PInt 0)) = PNone \<or>
         dict_get q ''request_end_time'' (dict_get q ''end_time'' (PInt 0)) = PNone"
  shows "(\<exists>err. request_row fn fp t0 c p settings (PDict q) = Inl err) \<and>
         (dict_get q ''first_token_time'' (PInt 0) = PNone \<longrightarrow>
            request_row fn fp t0 c p settings (PDict q) = Inl TypeError)"
proof (intro conjI impI)
  from relative_times_null[OF assms] obtain err where
    "relative_times t0 (dict_get q ''first_token_time'' (PInt 0))
       (dict_get q ''request_start_time'' (dict_get q ''start_time'' (PInt 0)))
       (dict_get q ''request_end_time'' (dict_get q ''end_time'' (PInt 0))) = Inl err"
    by blast
  then have "request_row fn fp t0 c p settings (PDict q) = Inl err"
    by (simp add: request_row_def dict_get_def)
  then show "\<exists>err. request_row fn fp t0 c p settings (PDict q) = Inl err" by blast
next
  assume "dict_get q ''first_token_time'' (PInt 0) = PNone"
  with assms(1) have "relative_times t0 (dict_get q ''first_token_time'' (PInt 0))
       (dict_get q ''request_start_time'' (dict_get q ''start_time'' (PInt 0)))
       (dict_get q ''request_end_time'' (dict_get q ''end_time'' (PInt 0))) = Inl TypeError"
    by (simp add: relative_times_def relative_time_null)
  then show "request_row fn fp t0 c p settings (PDict q) = Inl TypeError"
    by (simp add: request_row_def dict_get_def)
qed

theorem null_absolute_raises_witness:
  "PInt 5 \<noteq> PNone \<and>
   dict_get [(''start_time'', PInt 6), (''first_token_time'', PNone), (''end_time'', PInt 12)]
     ''first_token_time'' (PInt 0) = PNone \<and>
   request_row ''run.json'' ''run.json'' (PInt 5) (PInt 4) PNone []
     (PDict [(''start_time'', PInt 6), (''first_token_time'', PNone), (''end_time'', PInt 12)])
     = Inl TypeError \<and>
   run_start_time null_time_entry = PInt 5 \<and>
   parse_individual_requests (example_runtime (one_entry_file null_time_entry)) ''run.json'' None
     = Inl TypeError \<and>
   rows_of (parse_individual_requests (example_runtime (one_entry_file null_time_entry))
     ''run.json'' None) = []"
proof -
  have h: "PInt 5 \<noteq> PNone"
    "dict_get [(''start_time'', PInt 6), (''first_token_time'', PNone), (''end_time'', PInt 12)]
       ''first_token_time'' (PInt 0) = PNone \<or>
     dict_get [(''start_time'', PInt 6), (''first_token_time'', PNone), (''end_time'', PInt 12)]
       ''request_start_time''
       (dict_get [(''start_time'', PInt 6), (''first_token_time'', PNone), (''end_time'', PInt 12)]
          ''start_time'' (PInt 0)) = PNone \<or>
     dict_get [(''start_time'', PInt 6), (''first_token_time'', PNone), (''end_time'', PInt 12)]
       ''request_end_time''
       (dict_get [(''start_time'', PInt 6), (''first_token_time'', PNone), (''end_time'', PInt 12)]
          ''end_time'' (PInt 0)) = PNone"
    by (simp_all add: dict_get_def)
  have e: "parse_individual_requests (example_runtime (one_entry_file null_time_entry))
     ''run.json'' None = Inl TypeError"
    "run_start_time null_time_entry = PInt 5"
    by (simp_all add: eval_defs null_time_entry_def run_start_time_def)
  from null_absolute_raises[OF h, where fn = "''run.json''" and fp = "''run.json''"
      and c = "PInt 4" and p = PNone and settings = "[]"] e
  show ?thesis
    by (simp add: dict_get_def rows_of_def)
qed

text \<open>
  What does hold of the relative timestamps. Provided the extra metadata do not write
  over the timestamp fields, in every row that is returned each relative timestamp is the
  absolute value of the same row minus the run start time when the run start time is
  known and the absolute value is strictly positive, and 0 otherwise; it is never null.
  This holds for the rows that the loop body appends for an entry and so for every row
  that \<open>parse_individual_requests\<close> returns. A request yields a row whenever the run start
  time is unknown or the run start time and the three absolute values are numbers.
\<close>

theorem relative_timestamps:
  assumes "untouched md timestamp_fields"
  shows "(r \<in> set (rows_of (requests_entry rt fn fp md b)) \<longrightarrow>
            relative_fields_ok (run_start_time b) ''first_token_time''
              ''first_token_time_relative'' r \<and>
            relative_fields_ok (run_start_time b) ''start_time'' ''start_time_relative'' r \<and>
            relative_fields_ok (run_start_time b) ''end_time'' ''end_time_relative'' r) \<and>
         (r \<in> set (rows_of (parse_individual_requests rt fp md)) \<longrightarrow>
            (\<exists>e \<in> set (file_entries rt fp).
               relative_fields_ok (run_start_time e) ''first_token_time''
                 ''first_token_time_relative'' r \<and>
               relative_fields_ok (run_start_time e) ''start_time'' ''start_time_relative'' r \<and>
               relative_fields_ok (run_start_time e) ''end_time'' ''end_time_relative'' r)) \<and>
         (t0 = PNone \<or>
          (numeric t0 \<and> numeric (dict_get q ''first_token_time'' (PInt 0)) \<and>
           numeric (dict_get q ''request_start_time'' (dict_get q ''start_time'' (PInt 0))) \<and>
           numeric (dict_get q ''request_end_time'' (dict_get q ''end_time'' (PInt 0)))) \<longrightarrow>
            (\<exists>raw. request_row fn fp t0 c p settings (PDict q) = Inr raw))"
proof -
  have entry: "relative_fields_ok (run_start_time b) ''first_token_time''
              ''first_token_time_relative'' r \<and>
            relative_fields_ok (run_start_time b) ''start_time'' ''start_time_relative'' r \<and>
            relative_fields_ok (run_start_time b) ''end_time'' ''end_time_relative'' r"
    if "r \<in> set (rows_of (requests_entry rt fn fp md b))" for fn b
  proof -
    from that obtain rs ds where "requests_entry rt fn fp md b = Inr (rs, ds)" "r \<in> set rs"
      unfolding rows_of_member by blast
    from requests_entry_row[OF this] obtain run_stats run_start t0 c p settings req raw where
      t: "py_get b ''run_stats'' (PDict []) = Inr run_stats"
         "py_get run_stats ''start_time'' PNone = Inr run_start"
         "(if run_start = PNone then py_get b ''start_time'' PNone else Inr run_start) = Inr t0"
      and raw: "request_row fn fp t0 c p settings req = Inr raw" "r = add_metadata md raw"
      by blast
    from request_row_fields[OF raw(1)] obtain first_t start_t end_t rel where
      f: "relative_times t0 first_t start_t end_t = Inr rel"
         "map_of raw ''first_token_time'' = Some first_t"
         "map_of raw ''start_time'' = Some start_t"
         "map_of raw ''end_time'' = Some end_t"
         "map_of raw ''first_token_time_relative'' = Some (fst rel)"
         "map_of raw ''start_time_relative'' = Some (fst (snd rel))"
         "map_of raw ''end_time_relative'' = Some (snd (snd rel))"
      by blast
    from assms have o: "\<not> overrides md ''first_token_time''" "\<not> overrides md ''start_time''"
      "\<not> overrides md ''end_time''" "\<not> overrides md ''first_token_time_relative''"
      "\<not> overrides md ''start_time_relative''" "\<not> overrides md ''end_time_relative''"
      by (simp_all add: untouched_def timestamp_fields_def)
    from relative_times_ok[OF f(1)] f(2-7) o raw(2) run_start_time_eq[OF t]
    show ?thesis
      by (simp add: relative_fields_ok_def map_of_add_metadata)
  qed
  have top: "\<exists>e \<in> set (file_entries rt fp).
               relative_fields_ok (run_start_time e) ''first_token_time''
                 ''first_token_time_relative'' r \<and>
               relative_fields_ok (run_start_time e) ''start_time'' ''start_time_relative'' r \<and>
               relative_fields_ok (run_start_time e) ''end_time'' ''end_time_relative'' r"
    if "r \<in> set (rows_of (parse_individual_requests rt fp md))"
    using parse_individual_requests_entry[OF that] entry by blast
  from entry top request_row_returns[of t0 q fn fp c p settings] show ?thesis
    by (intro conjI impI) blast+
qed

theorem relative_timestamps_witness:
  "untouched None timestamp_fields \<and>
   run_start_time relative_entry = PInt 5 \<and>
   map (field_of ''start_time'')
     (rows_of (parse_individual_requests (example_runtime (one_entry_file relative_entry))
        ''run.json'' None)) = [Some (PInt 0)] \<and>
   map (field_of ''start_time_relative'')
     (rows_of (parse_individual_requests (example_runtime (one_entry_file relative_entry))
        ''run.json'' None)) = [Some (PInt 0)] \<and>
   map (field_of ''first_token_time_relative'')
     (rows_of (parse_individual_requests (example_runtime (one_entry_file relative_entry))
        ''run.json'' None)) = [Some (PInt 2)] \<and>
   map (field_of ''end_time_relative'')
     (rows_of (parse_individual_requests (example_runtime (one_entry_file relative_entry))
        ''run.json'' None)) = [Some (PInt 7)]"
proof -
  have h: "untouched None timestamp_fields"
    by (simp add: untouched_def overrides_def timestamp_fields_def)
  have t: "run_start_time relative_entry = PInt 5"
    by (simp add: run_start_time_def relative_entry_def)
  have e: "rows_of (parse_individual_requests (example_runtime (one_entry_file relative_entry))
        ''run.json'' None) =
      rows_of (requests_entry (example_runtime (one_entry_file relative_entry))
        ''run.json'' ''run.json'' None relative_entry)"
    "length (rows_of (requests_entry (example_runtime (one_entry_file relative_entry))
        ''run.json'' ''run.json'' None relative_entry)) = 1"
    by (simp_all add: eval_defs relative_entry_def)
  then obtain r where r: "rows_of (requests_entry (example_runtime (one_entry_file relative_entry))
        ''run.json'' ''run.json'' None relative_entry) = [r]"
    by (auto simp: length_Suc_conv)
  have v: "field_of ''start_time'' r = Some (PInt 0)"
    "field_of ''first_token_time'' r = Some (PInt 7)"
    "field_of ''end_time'' r = Some (PInt 12)"
    using r by (auto simp: eval_defs relative_entry_def)
  from relative_timestamps[OF h, where r = r
      and rt = "example_runtime (one_entry_file relative_entry)" and fn = "''run.json''"
      and fp = "''run.json''" and b = relative_entry and ?t0.0 = PNone and q = "[]"
      and c = PNone and p = PNone and settings = "[]", THEN conjunct1] r t v
  have "field_of ''start_time_relative'' r = Some (PInt 0) \<and>
        field_of ''first_token_time_relative'' r = Some (PInt 2) \<and>
        field_of ''end_time_relative'' r = Some (PInt 7)"
    by (auto simp: relative_fields_ok_def relative_ok_def field_of_def py_sub_def
        split: option.splits)
  with h t e(1) r v show ?thesis by simp
qed

text \<open>
  C10, as the code has it. Provided the extra metadata do not write over the dataset
  fields: for an entry whose \<open>config.requests\<close> is absent or falsy and whose
  \<open>request_loader\<close> is absent or an empty mapping, either loop body calls
  \<open>extract_dataset_settings\<close> on an empty mapping, which returns an empty mapping, and the
  rows have prompt tokens 0, output tokens 0, deviations 0 and an empty processor. When
  the \<open>request_loader\<close> of such an entry is null, the call is made on null and returns
  the default record.
\<close>

theorem no_loader_rows:
  assumes "untouched md dataset_fields"
  shows "(no_loader_info b \<and> r \<in> set (rows_of (summary_entry rt fn fp md b)) \<longrightarrow>
            field_of ''prompt_tokens'' r = Some (PInt 0) \<and>
            field_of ''prompt_tokens_stdev'' r = Some (PInt 0) \<and>
            field_of ''output_tokens'' r = Some (PInt 0) \<and>
            field_of ''output_tokens_stdev'' r = Some (PInt 0) \<and>
            field_of ''processor'' r = Some (PStr [])) \<and>
         (no_loader_info b \<and> r \<in> set (rows_of (requests_entry rt fn fp md b)) \<longrightarrow>
            field_of ''dataset_prompt_tokens'' r = Some (PInt 0) \<and>
            field_of ''dataset_output_tokens'' r = Some (PInt 0)) \<and>
         (list_all no_loader_info (file_entries rt fp) \<and>
          r \<in> set (rows_of (parse_benchmark_metrics rt fp md)) \<longrightarrow>
            field_of ''prompt_tokens'' r = Some (PInt 0) \<and>
            field_of ''prompt_tokens_stdev'' r = Some (PInt 0) \<and>
            field_of ''output_tokens'' r = Some (PInt 0) \<and>
            field_of ''output_tokens_stdev'' r = Some (PInt 0) \<and>
            field_of ''processor'' r = Some (PStr [])) \<and>
         (list_all no_loader_info (file_entries rt fp) \<and>
          r \<in> set (rows_of (parse_individual_requests rt fp md)) \<longrightarrow>
            field_of ''dataset_prompt_tokens'' r = Some (PInt 0) \<and>
            field_of ''dataset_output_tokens'' r = Some (PInt 0)) \<and>
         (no_loader_info b \<and> py_get b ''config'' (PDict []) = Inr (PDict c) \<longrightarrow>
            entry_dataset_settings rt (PDict c) b = extract_dataset_settings rt (PDict []) \<and>
            extract_dataset_settings rt (PDict []) = Inr []) \<and>
         (falsy_at b [''config'', ''requests''] \<and>
          lookup_path b [''request_loader''] = Some PNone \<and>
          py_get b ''config'' (PDict []) = Inr (PDict c) \<longrightarrow>
            entry_dataset_settings rt (PDict c) b = extract_dataset_settings rt PNone \<and>
            extract_dataset_settings rt PNone = Inr default_settings)"
proof -
  from assms have o: "\<not> overrides md ''prompt_tokens''"
    "\<not> overrides md ''prompt_tokens_stdev''" "\<not> overrides md ''output_tokens''"
    "\<not> overrides md ''output_tokens_stdev''" "\<not> overrides md ''processor''"
    "\<not> overrides md ''dataset_prompt_tokens''" "\<not> overrides md ''dataset_output_tokens''"
    by (simp_all add: untouched_def dataset_fields_def)
  have summary: "field_of ''prompt_tokens'' r = Some (PInt 0) \<and>
          field_of ''prompt_tokens_stdev'' r = Some (PInt 0) \<and>
          field_of ''output_tokens'' r = Some (PInt 0) \<and>
          field_of ''output_tokens_stdev'' r = Some (PInt 0) \<and>
          field_of ''processor'' r = Some (PStr [])"
    if h: "no_loader_info b" "r \<in> set (rows_of (summary_entry rt fn fp md b))" for b fn
  proof -
    from h(2) obtain rs ds where "summary_entry rt fn fp md b = Inr (rs, ds)" "r \<in> set rs"
      unfolding rows_of_member by blast
    from summary_entry_row[OF this] obtain config c p settings raw where
      s: "py_get b ''config'' (PDict []) = Inr config"
         "entry_dataset_settings rt config b = Inr settings"
      and raw: "summary_row fn fp c p settings b = Inr raw" "r = add_metadata md raw"
      by blast
    from h(1) s have e: "settings = []" by (blast intro: entry_dataset_settings_empty)
    from summary_row_fields[OF raw(1)] raw(2) o e show ?thesis
      by (auto simp: field_of_def map_of_add_metadata dict_get_def)
  qed
  have requests: "field_of ''dataset_prompt_tokens'' r = Some (PInt 0) \<and>
          field_of ''dataset_output_tokens'' r = Some (PInt 0)"
    if h: "no_loader_info b" "r \<in> set (rows_of (requests_entry rt fn fp md b))" for b fn
  proof -
    from h(2) obtain rs ds where "requests_entry rt fn fp md b = Inr (rs, ds)" "r \<in> set rs"
      unfolding rows_of_member by blast
    from requests_entry_row[OF this] obtain config t0 c p settings req raw where
      s: "py_get b ''config'' (PDict []) = Inr config"
         "entry_dataset_settings rt config b = Inr settings"
      and raw: "request_row fn fp t0 c p settings req = Inr raw" "r = add_metadata md raw"
      by blast
    from h(1) s have e: "settings = []" by (blast intro: entry_dataset_settings_empty)
    from request_row_fields[OF raw(1)] raw(2) o e show ?thesis
      by (auto simp: field_of_def map_of_add_metadata dict_get_def)
  qed
  have top_summary: "field_of ''prompt_tokens'' r = Some (PInt 0) \<and>
          field_of ''prompt_tokens_stdev'' r = Some (PInt 0) \<and>
          field_of ''output_tokens'' r = Some (PInt 0) \<and>
          field_of ''output_tokens_stdev'' r = Some (PInt 0) \<and>
          field_of ''processor'' r = Some (PStr [])"
    if h: "list_all no_loader_info (file_entries rt fp)"
      "r \<in> set (rows_of (parse_benchmark_metrics rt fp md))"
  proof -
    from parse_benchmark_metrics_entry[OF h(2)] obtain e where
      "e \<in> set (file_entries rt fp)" "r \<in> set (rows_of (summary_entry rt (basename fp) fp md e))"
      by blast
    with h(1) show ?thesis
      by (intro summary[of e "basename fp"]) (simp_all add: list_all_iff)
  qed
  have top_requests: "field_of ''dataset_prompt_tokens'' r = Some (PInt 0) \<and>
          field_of ''dataset_output_tokens'' r = Some (PInt 0)"
    if h: "list_all no_loader_info (file_entries rt fp)"
      "r \<in> set (rows_of (parse_individual_requests rt fp md))"
  proof -
    from parse_individual_requests_entry[OF h(2)] obtain e where
      "e \<in> set (file_entries rt fp)" "r \<in> set (rows_of (requests_entry rt (basename fp) fp md e))"
      by blast
    with h(1) show ?thesis
      by (intro requests[of e "basename fp"]) (simp_all add: list_all_iff)
  qed
  have empty: "entry_dataset_settings rt (PDict c) b = extract_dataset_settings rt (PDict []) \<and>
            extract_dataset_settings rt (PDict []) = Inr []"
    if h: "no_loader_info b" "py_get b ''config'' (PDict []) = Inr (PDict c)"
  proof -
    from h(1) have f: "falsy_at b [''config'', ''requests'']" by (simp add: no_loader_info_def)
    have "\<not> truthy (dict_get c ''requests'' (PDict []))"
      by (rule falsy_requests[OF f h(2)]) (simp add: dict_get_def)
    moreover from h have "py_get b ''request_loader'' (PDict []) = Inr (PDict [])"
      by (auto simp: no_loader_info_def dict_get_def dest!: py_get_dict split: option.splits)
    ultimately show ?thesis
      by (simp add: entry_dataset_settings_def dict_get_def extract_dataset_settings_empty)
  qed
  have null: "entry_dataset_settings rt (PDict c) b = extract_dataset_settings rt PNone \<and>
            extract_dataset_settings rt PNone = Inr default_settings"
    if h: "falsy_at b [''config'', ''requests'']" "lookup_path b [''request_loader''] = Some PNone"
      "py_get b ''config'' (PDict []) = Inr (PDict c)"
  proof -
    have "\<not> truthy (dict_get c ''requests'' (PDict []))"
      by (rule falsy_requests[OF h(1) h(3)]) (simp add: dict_get_def)
    moreover from h have "py_get b ''request_loader'' (PDict []) = Inr PNone"
      by (auto simp: dict_get_def dest!: py_get_dict split: option.splits)
    ultimately show ?thesis
      by (simp add: entry_dataset_settings_def dict_get_def extract_dataset_settings_def)
  qed
  from summary[of b fn] requests[of b fn] top_summary top_requests empty null show ?thesis
    by (intro conjI impI) blast+
qed

theorem no_loader_rows_witness:
  "untouched None dataset_fields \<and>
   no_loader_info empty_loader_entry \<and>
   map (field_of ''prompt_tokens'')
     (rows_of (summary_entry (example_runtime PNone) ''run.json'' ''run.json'' None
        empty_loader_entry)) = [Some (PInt 0)] \<and>
   map (field_of ''processor'')
     (rows_of (summary_entry (example_runtime PNone) ''run.json'' ''run.json'' None
        empty_loader_entry)) = [Some (PStr [])] \<and>
   map (field_of ''dataset_prompt_tokens'')
     (rows_of (requests_entry (example_runtime PNone) ''run.json'' ''run.json'' None
        empty_loader_entry)) = [Some (PInt 0)] \<and>
   falsy_at null_loader_entry [''config'', ''requests''] \<and>
   lookup_path null_loader_entry [''request_loader''] = Some PNone \<and>
   entry_dataset_settings (example_runtime PNone)
     (PDict [(''strategy'', PDict [(''max_concurrency'', PInt 4)])]) null_loader_entry
     = Inr default_settings"
proof -
  have h: "untouched None dataset_fields"
    by (simp add: untouched_def overrides_def dataset_fields_def)
  have n: "no_loader_info empty_loader_entry"
    "falsy_at null_loader_entry [''config'', ''requests'']"
    "lookup_path null_loader_entry [''request_loader''] = Some PNone"
    "py_get null_loader_entry ''config'' (PDict [])
       = Inr (PDict [(''strategy'', PDict [(''max_concurrency'', PInt 4)])])"
    by (simp_all add: no_loader_info_def falsy_at_def empty_loader_entry_def
        null_loader_entry_def)
  have e: "length (rows_of (summary_entry (example_runtime PNone) ''run.json'' ''run.json'' None
        empty_loader_entry)) = 1"
    "length (rows_of (requests_entry (example_runtime PNone) ''run.json'' ''run.json'' None
        empty_loader_entry)) = 1"
    by (simp_all add: eval_defs empty_loader_entry_def)
  then obtain r q where r: "rows_of (summary_entry (example_runtime PNone) ''run.json''
        ''run.json'' None empty_loader_entry) = [r]"
    and q: "rows_of (requests_entry (example_runtime PNone) ''run.json''
        ''run.json'' None empty_loader_entry) = [q]"
    by (auto simp: length_Suc_conv)
  from no_loader_rows[OF h, of empty_loader_entry r "example_runtime PNone"
      "''run.json''" "''run.json''"] n(1) r
  have a: "field_of ''prompt_tokens'' r = Some (PInt 0)" "field_of ''processor'' r = Some (PStr [])"
    by simp_all
  from no_loader_rows[OF h, of empty_loader_entry q "example_runtime PNone"
      "''run.json''" "''run.json''"] n(1) q
  have b: "field_of ''dataset_prompt_tokens'' q = Some (PInt 0)"
    by simp
  from no_loader_rows[OF h, of null_loader_entry r "example_runtime PNone"
      "''run.json''" "''run.json''" "[(''strategy'', PDict [(''max_concurrency'', PInt 4)])]"] n(2-4)
  have c: "entry_dataset_settings (example_runtime PNone)
     (PDict [(''strategy'', PDict [(''max_concurrency'', PInt 4)])]) null_loader_entry
     = Inr default_settings"
    by simp
  from h n a b c r q show ?thesis by simp
qed

text \<open>
  C10 as stated fails: the entry \<open>null_loader_entry\<close> has no \<open>config.requests\<close> and a
  null \<open>request_loader\<close>, and its summary row carries the default record.
\<close>

theorem null_loader_counterexample:
  "falsy_at null_loader_entry [''config'', ''requests''] \<and>
   falsy_at null_loader_entry [''request_loader''] \<and>
   map (field_of ''prompt_tokens'')
     (rows_of (parse_benchmark_metrics (example_runtime (one_entry_file null_loader_entry))
        ''run.json'' None)) = [Some (PInt 400)] \<and>
   map (field_of ''output_tokens'')
     (rows_of (parse_benchmark_metrics (example_runtime (one_entry_file null_loader_entry))
        ''run.json'' None)) = [Some (PInt 200)] \<and>
   map (field_of ''processor'')
     (rows_of (parse_benchmark_metrics (example_runtime (one_entry_file null_loader_entry))
        ''run.json'' None)) = [Some (PStr ''multiturn'')] \<and>
   map (field_of ''dataset_prompt_tokens'')
     (rows_of (parse_individual_requests (example_runtime (one_entry_file null_loader_entry))
        ''run.json'' None)) = [Some (PInt 400)]"
  by (simp add: eval_defs null_loader_entry_def falsy_at_def)

text \<open>
  C2, where the code departs from it. When the \<open>data\<close> field is a non-empty string
  that is not list-shaped and \<open>json.loads\<close> decodes it to anything but an object, the
  four \<open>data_dict.get\<close> raise \<open>AttributeError\<close>, which the \<open>except\<close> clause of line 67
  does not catch: \<open>extract_dataset_settings\<close> raises instead of returning an empty
  mapping.
\<close>

theorem json_non_object_raises:
  assumes "map_of loader ''data'' = Some (PStr s)" and "s \<noteq> []" and "\<not> list_shaped s"
    and "json_loads rt s = Inr v" and "\<forall>kvs. v \<noteq> PDict kvs"
  shows "extract_dataset_settings rt (PDict loader) = Inl AttributeError"
proof -
  from assms(5) have g: "py_get v k d = Inl AttributeError" for k d
    by (cases v) simp_all
  from assms(1-4) show ?thesis
    by (simp add: extract_dataset_settings_def list_format_not_shaped json_format_def g)
qed

theorem json_non_object_raises_witness:
  "map_of [(''data'', PStr ''5'')] ''data'' = Some (PStr ''5'') \<and> ''5'' \<noteq> [] \<and>
   \<not> list_shaped ''5'' \<and> json_loads (example_runtime PNone) ''5'' = Inr (PInt 5) \<and>
   (\<forall>kvs. PInt 5 \<noteq> PDict kvs) \<and>
   extract_dataset_settings (example_runtime PNone) (PDict [(''data'', PStr ''5'')])
     = Inl AttributeError"
proof -
  have h: "map_of [(''data'', PStr ''5'')] ''data'' = Some (PStr ''5'')" "''5'' \<noteq> []"
    "\<not> list_shaped ''5''" "json_loads (example_runtime PNone) ''5'' = Inr (PInt 5)"
    "\<forall>kvs. PInt 5 \<noteq> PDict kvs"
    by (simp_all add: list_shaped_def startswith_def endswith_def example_runtime_def)
  from json_non_object_raises[OF h] h show ?thesis by simp
qed

text \<open>
  C3, as the code has it. For an entry whose \<open>config.strategy\<close>, \<open>config.profile\<close> and
  \<open>config.requests\<close> are present and truthy, what either loop body returns does not
  depend on \<open>args\<close> and \<open>request_loader\<close>: any entry that agrees with it on every other
  key gives the same rows. For a request, the row has as \<open>start_time\<close> and \<open>end_time\<close> the
  values of \<open>request_start_time\<close> and \<open>request_end_time\<close> whenever these keys are
  present, whatever \<open>start_time\<close> and \<open>end_time\<close> hold.
\<close>

theorem variant_a_precedence:
  assumes "variant_a_complete (PDict e)" and "agree_outside_variant_b e e'"
  shows "summary_entry rt fn fp md (PDict e') = summary_entry rt fn fp md (PDict e) \<and>
         requests_entry rt fn fp md (PDict e') = requests_entry rt fn fp md (PDict e) \<and>
         (request_row fn fp t0 cc pp settings (PDict req) = Inr raw \<longrightarrow>
            (\<forall>v. map_of req ''request_start_time'' = Some v \<longrightarrow> map_of raw ''start_time'' = Some v) \<and>
            (\<forall>v. map_of req ''request_end_time'' = Some v \<longrightarrow> map_of raw ''end_time'' = Some v))"
proof (intro conjI impI allI)
  from assms(1) obtain c s p q where
    c: "map_of e ''config'' = Some (PDict c)"
    and s: "map_of c ''strategy'' = Some s" "truthy s" "map_of c ''profile'' = Some p" "truthy p"
    and q: "map_of c ''requests'' = Some q" "truthy q"
    by (rule variant_a_config)
  from assms(2) have k: "map_of e' ''config'' = map_of e ''config''"
    "map_of e' ''metrics'' = map_of e ''metrics''"
    "map_of e' ''run_stats'' = map_of e ''run_stats''"
    "map_of e' ''start_time'' = map_of e ''start_time''"
    "map_of e' ''requests'' = map_of e ''requests''"
    by (simp_all add: agree_outside_variant_b_def)
  note ax = resolve_axis_config_only[OF s, of rt]
  note ds = entry_dataset_settings_config_only[OF q, of rt e' e]
  note sr = summary_row_metrics_only[OF k(2)]
  show "summary_entry rt fn fp md (PDict e') = summary_entry rt fn fp md (PDict e)"
    unfolding summary_entry_def
    by (simp add: k c ds sr ax[of "case map_of e' ''args'' of None \<Rightarrow> PDict [] | Some v \<Rightarrow> v"
          "case map_of e ''args'' of None \<Rightarrow> PDict [] | Some v \<Rightarrow> v"] cong: if_cong)
  show "requests_entry rt fn fp md (PDict e') = requests_entry rt fn fp md (PDict e)"
    unfolding requests_entry_def
    by (simp add: k c ds ax[of "case map_of e' ''args'' of None \<Rightarrow> PDict [] | Some v \<Rightarrow> v"
          "case map_of e ''args'' of None \<Rightarrow> PDict [] | Some v \<Rightarrow> v"] cong: if_cong)
next
  fix v
  assume r: "request_row fn fp t0 cc pp settings (PDict req) = Inr raw"
  {
    assume "map_of req ''request_start_time'' = Some v"
    with request_row_fields[OF r] show "map_of raw ''start_time'' = Some v"
      by auto
  }
  {
    assume "map_of req ''request_end_time'' = Some v"
    with request_row_fields[OF r] show "map_of raw ''end_time'' = Some v"
      by auto
  }
qed

theorem variant_a_precedence_witness:
  "variant_a_complete (PDict both_variants_fields) \<and>
   agree_outside_variant_b both_variants_fields variant_a_fields \<and>
   summary_entry (example_runtime PNone) ''run.json'' ''run.json'' None (PDict variant_a_fields)
     = summary_entry (example_runtime PNone) ''run.json'' ''run.json'' None
         (PDict both_variants_fields) \<and>
   map (field_of ''concurrency'')
     (rows_of (parse_benchmark_metrics
        (example_runtime (one_entry_file (PDict both_variants_fields))) ''run.json'' None))
     = [Some (PInt 4)] \<and>
   map (field_of ''processor'')
     (rows_of (parse_benchmark_metrics
        (example_runtime (one_entry_file (PDict both_variants_fields))) ''run.json'' None))
     = [Some (PStr ''a'')] \<and>
   map (field_of ''start_time'')
     (rows_of (parse_individual_requests
        (example_runtime (one_entry_file (PDict both_variants_fields))) ''run.json'' None))
     = [Some (PInt 3)] \<and>
   map (field_of ''end_time'')
     (rows_of (parse_individual_requests
        (example_runtime (one_entry_file (PDict both_variants_fields))) ''run.json'' None))
     = [Some (PInt 9)]"
proof -
  have h: "variant_a_complete (PDict both_variants_fields)"
    "agree_outside_variant_b both_variants_fields variant_a_fields"
    by (simp_all add: variant_a_complete_def truthy_at_def both_variants_fields_def
        variant_a_fields_def agree_outside_variant_b_def settings_literal_def)
  have e: "map (field_of ''concurrency'')
     (rows_of (parse_benchmark_metrics
        (example_runtime (one_entry_file (PDict both_variants_fields))) ''run.json'' None))
     = [Some (PInt 4)]"
    "map (field_of ''processor'')
     (rows_of (parse_benchmark_metrics
        (example_runtime (one_entry_file (PDict both_variants_fields))) ''run.json'' None))
     = [Some (PStr ''a'')]"
    "map (field_of ''start_time'')
     (rows_of (parse_individual_requests
        (example_runtime (one_entry_file (PDict both_variants_fields))) ''run.json'' None))
     = [Some (PInt 3)]"
    "map (field_of ''end_time'')
     (rows_of (parse_individual_requests
        (example_runtime (one_entry_file (PDict both_variants_fields))) ''run.json'' None))
     = [Some (PInt 9)]"
    by (simp_all add: eval_defs both_variants_fields_def variant_a_fields_def)
  from variant_a_precedence[OF h, of "example_runtime PNone" "''run.json''" "''run.json''" None]
    h e
  show ?thesis by simp
qed

text \<open>
  C3 as stated fails: the entry \<open>empty_variant_a_entry\<close> contains \<open>config.strategy\<close>,
  \<open>config.profile\<close> and \<open>config.requests\<close>, all empty, and different \<open>args.strategy\<close>
  and \<open>request_loader\<close>; the extracted concurrency and dataset settings are those of
  Variant B.
\<close>

theorem empty_variant_a_counterexample:
  "lookup_path empty_variant_a_entry [''config'', ''strategy''] = Some (PDict []) \<and>
   lookup_path empty_variant_a_entry [''args'', ''strategy'']
     = Some (PDict [(''streams'', PInt 8)]) \<and>
   lookup_path empty_variant_a_entry [''config'', ''requests''] = Some (PDict []) \<and>
   map (field_of ''concurrency'')
     (rows_of (parse_benchmark_metrics (example_runtime (one_entry_file empty_variant_a_entry))
        ''run.json'' None)) = [Some (PInt 8)] \<and>
   map (field_of ''prompt_tokens'')
     (rows_of (parse_benchmark_metrics (example_runtime (one_entry_file empty_variant_a_entry))
        ''run.json'' None)) = [Some (PInt 512)] \<and>
   map (field_of ''processor'')
     (rows_of (parse_benchmark_metrics (example_runtime (one_entry_file empty_variant_a_entry))
        ''run.json'' None)) = [Some (PStr ''b'')]"
  by (simp add: eval_defs empty_variant_a_entry_def)

text \<open>
  C6. For a loader whose \<open>data\<close> field is the string
  \<open>['prompt_tokens=512,output_tokens=256']\<close>, which \<open>ast.literal_eval\<close> reads as the
  list of one string, \<open>extract_dataset_settings\<close> returns prompt tokens 512, output
  tokens 256, both deviations 0 and the processor of the loader (the empty string when
  the loader has none): the element is split at the comma, each piece at its first \<open>=\<close>,
  and the all-digit values become integers.
\<close>

theorem settings_literal_parsed:
  assumes "map_of loader ''data'' = Some (PStr settings_literal)"
    and "literal_eval rt settings_literal
           = Inr (PList [PStr ''prompt_tokens=512,output_tokens=256''])"
  shows "extract_dataset_settings rt (PDict loader) =
           Inr [(''prompt_tokens'', PInt 512),
                (''prompt_tokens_stdev'', PInt 0),
                (''output_tokens'', PInt 256),
                (''output_tokens_stdev'', PInt 0),
                (''processor'', dict_get loader ''processor'' (PStr []))]"
proof -
  have shape: "list_shaped settings_literal" "settings_literal \<noteq> []"
    by (simp_all add: settings_literal_def list_shaped_def startswith_def endswith_def)
  have "list_format rt (PDict loader) (PStr settings_literal) =
     Inr (Some [(''prompt_tokens'', PInt 512),
                (''prompt_tokens_stdev'', PInt 0),
                (''output_tokens'', PInt 256),
                (''output_tokens_stdev'', PInt 0),
                (''processor'', dict_get loader ''processor'' (PStr []))])"
    using assms(2) shape
    by (simp add: list_format_def dict_get_def split_first_def isdigit_def digit_char_def
        ascii_digit_def int_of_str_def)
  with assms(1) shape(2) show ?thesis
    by (simp add: extract_dataset_settings_def)
qed

theorem settings_literal_parsed_witness:
  "map_of [(''data'', PStr settings_literal), (''processor'', PStr ''gpt2'')] ''data''
     = Some (PStr settings_literal) \<and>
   literal_eval (example_runtime PNone) settings_literal
     = Inr (PList [PStr ''prompt_tokens=512,output_tokens=256'']) \<and>
   extract_dataset_settings (example_runtime PNone)
     (PDict [(''data'', PStr settings_literal), (''processor'', PStr ''gpt2'')]) =
       Inr [(''prompt_tokens'', PInt 512),
            (''prompt_tokens_stdev'', PInt 0),
            (''output_tokens'', PInt 256),
            (''output_tokens_stdev'', PInt 0),
            (''processor'', PStr ''gpt2'')]"
proof -
  have h: "map_of [(''data'', PStr settings_literal), (''processor'', PStr ''gpt2'')] ''data''
     = Some (PStr settings_literal)"
    "literal_eval (example_runtime PNone) settings_literal
     = Inr (PList [PStr ''prompt_tokens=512,output_tokens=256''])"
    by (simp_all add: example_runtime_def)
  from settings_literal_parsed[OF h] h show ?thesis
    by (simp add: dict_get_def)
qed

text \<open>
  C8. \<open>filter_data_by_levels\<close> returns the table unchanged when \<open>levels\<close> is null; when
  the table has no column for the axis it returns the table unchanged with a diagnostic;
  otherwise it keeps the columns and exactly the rows whose cell in that column equals a
  member of \<open>levels\<close>, in their original order, with a diagnostic and no error when none
  is left. Equality is exact: two floats are equal when they are the same number, an
  integer equals a float when it is that number.
\<close>

theorem filter_data_by_levels_spec:
  "filter_data_by_levels df axis_mode None = (df, []) \<and>
   (axis_field axis_mode \<notin> set (columns df) \<longrightarrow>
      filter_data_by_levels df axis_mode (Some ls) = (df, [ColumnNotFound (axis_field axis_mode)])) \<and>
   (axis_field axis_mode \<in> set (columns df) \<longrightarrow>
      columns (fst (filter_data_by_levels df axis_mode (Some ls))) = columns df \<and>
      rows (fst (filter_data_by_levels df axis_mode (Some ls)))
        = filter (\<lambda>r. \<exists>l \<in> set ls. cell_eq (cell r (axis_field axis_mode)) l) (rows df) \<and>
      subseq (rows (fst (filter_data_by_levels df axis_mode (Some ls)))) (rows df) \<and>
      snd (filter_data_by_levels df axis_mode (Some ls))
        = (if rows (fst (filter_data_by_levels df axis_mode (Some ls))) = []
           then [NoDataRemains (axis_field axis_mode) ls] else [])) \<and>
   (cell_eq (PFloat (Fin x)) (PFloat (Fin y)) \<longleftrightarrow> x = y) \<and>
   (cell_eq (PInt i) (PFloat (Fin y)) \<longleftrightarrow> of_int i = y)"
proof -
  have f: "(\<lambda>r. isin (cell r k) ls) = (\<lambda>r. \<exists>l \<in> set ls. cell_eq (cell r k) l)" for k
    by (simp add: isin_iff)
  show ?thesis
    by (simp add: filter_data_by_levels_def Let_def select_rows_filter f cell_eq_def)
qed

theorem filter_data_by_levels_spec_witness:
  "axis_field ''concurrency'' \<in> set (columns levels_table) \<and>
   axis_field ''rps'' \<notin> set (columns levels_table) \<and>
   filter_data_by_levels levels_table ''rps'' (Some [PFloat (Fin 2)])
     = (levels_table, [ColumnNotFound ''rps'']) \<and>
   filter_data_by_levels levels_table ''concurrency'' (Some [PFloat (Fin 2), PFloat (Fin 8)])
     = (\<lparr>columns = [''filename'', ''concurrency''],
         rows = [[(''filename'', PStr ''b''), (''concurrency'', PInt 2)],
                 [(''filename'', PStr ''d''), (''concurrency'', PInt 8)]]\<rparr>, []) \<and>
   filter_data_by_levels levels_table ''concurrency'' (Some [PFloat (Fin 3)])
     = (\<lparr>columns = [''filename'', ''concurrency''], rows = []\<rparr>,
        [NoDataRemains ''concurrency'' [PFloat (Fin 3)]])"
  using filter_data_by_levels_spec[of levels_table "''concurrency''" "[PFloat (Fin 2), PFloat (Fin 8)]"]
    filter_data_by_levels_spec[of levels_table "''rps''" "[PFloat (Fin 2)]"]
  by (simp add: filter_data_by_levels_def levels_table_def axis_field_def select_rows_def
      isin_def cell_eq_def cell_def dict_get_def Let_def)

text \<open>
  C9. \<open>create_dataset_identifier\<close> applied to its own result returns it unchanged, so
  the \<open>dataset_id\<close> column after two applications is that after one. The column is
  written from \<open>prompt_tokens\<close> and \<open>output_tokens\<close> when these columns exist, from
  \<open>dataset_prompt_tokens\<close> and \<open>dataset_output_tokens\<close> when there is no \<open>prompt_tokens\<close>
  column and these exist, and the table is returned unchanged when neither
  \<open>prompt_tokens\<close> nor \<open>dataset_prompt_tokens\<close> is a column.
\<close>

theorem create_dataset_identifier_idempotent:
  "(create_dataset_identifier f df = Inr df1 \<longrightarrow> create_dataset_identifier f df1 = Inr df1) \<and>
   (''prompt_tokens'' \<in> set (columns df) \<and> ''output_tokens'' \<in> set (columns df) \<longrightarrow>
      (\<exists>df'. create_dataset_identifier f df = Inr df' \<and>
         column df' ''dataset_id'' =
           Inr (map (\<lambda>r. PStr (f (cell r ''prompt_tokens'') @ ''-'' @ f (cell r ''output_tokens'')))
                  (rows df)))) \<and>
   (''prompt_tokens'' \<notin> set (columns df) \<and> ''dataset_prompt_tokens'' \<in> set (columns df) \<and>
    ''dataset_output_tokens'' \<in> set (columns df) \<longrightarrow>
      (\<exists>df'. create_dataset_identifier f df = Inr df' \<and>
         column df' ''dataset_id'' =
           Inr (map (\<lambda>r. PStr (f (cell r ''dataset_prompt_tokens'') @ ''-'' @
                                f (cell r ''dataset_output_tokens''))) (rows df)))) \<and>
   (''prompt_tokens'' \<notin> set (columns df) \<and> ''dataset_prompt_tokens'' \<notin> set (columns df) \<longrightarrow>
      create_dataset_identifier f df = Inr df)"
proof (intro conjI impI)
  assume a: "create_dataset_identifier f df = Inr df1"
  show "create_dataset_identifier f df1 = Inr df1"
  proof (cases "''prompt_tokens'' \<in> set (columns df)")
    case True
    with a have "ebind (column df ''prompt_tokens'') (\<lambda>ps.
           ebind (column df ''output_tokens'') (\<lambda>os.
           Inr (set_column df ''dataset_id'' (dataset_ids f ps os)))) = Inr df1"
      by (simp add: create_dataset_identifier_def)
    from create_from_columns_twice[OF _ _ this] True show ?thesis
      by (simp add: create_dataset_identifier_def)
  next
    case False
    note np = this
    show ?thesis
    proof (cases "''dataset_prompt_tokens'' \<in> set (columns df)")
      case True
      with np a have "ebind (column df ''dataset_prompt_tokens'') (\<lambda>ps.
           ebind (column df ''dataset_output_tokens'') (\<lambda>os.
           Inr (set_column df ''dataset_id'' (dataset_ids f ps os)))) = Inr df1"
        by (simp add: create_dataset_identifier_def)
      from create_from_columns_twice[OF _ _ this] True np show ?thesis
        by (simp add: create_dataset_identifier_def)
    next
      case False
      with np a show ?thesis
        by (simp add: create_dataset_identifier_def)
    qed
  qed
next
  assume "''prompt_tokens'' \<in> set (columns df) \<and> ''output_tokens'' \<in> set (columns df)"
  then show "\<exists>df'. create_dataset_identifier f df = Inr df' \<and>
         column df' ''dataset_id'' =
           Inr (map (\<lambda>r. PStr (f (cell r ''prompt_tokens'') @ ''-'' @ f (cell r ''output_tokens'')))
                  (rows df))"
    using create_from_columns[of "''prompt_tokens''" df "''output_tokens''" f]
    by (simp add: create_dataset_identifier_def column_def with_dataset_id_def cell_update_same)
next
  assume "''prompt_tokens'' \<notin> set (columns df) \<and> ''dataset_prompt_tokens'' \<in> set (columns df) \<and>
    ''dataset_output_tokens'' \<in> set (columns df)"
  then show "\<exists>df'. create_dataset_identifier f df = Inr df' \<and>
         column df' ''dataset_id'' =
           Inr (map (\<lambda>r. PStr (f (cell r ''dataset_prompt_tokens'') @ ''-'' @
                                f (cell r ''dataset_output_tokens''))) (rows df))"
    using create_from_columns[of "''dataset_prompt_tokens''" df "''dataset_output_tokens''" f]
    by (simp add: create_dataset_identifier_def column_def with_dataset_id_def cell_update_same)
next
  assume "''prompt_tokens'' \<notin> set (columns df) \<and> ''dataset_prompt_tokens'' \<notin> set (columns df)"
  then show "create_dataset_identifier f df = Inr df"
    by (simp add: create_dataset_identifier_def)
qed

theorem create_dataset_identifier_idempotent_witness:
  "''prompt_tokens'' \<in> set (columns tokens_table) \<and>
   ''output_tokens'' \<in> set (columns tokens_table) \<and>
   create_dataset_identifier example_str tokens_table =
     Inr \<lparr>columns = [''prompt_tokens'', ''output_tokens'', ''dataset_id''],
          rows = [[(''prompt_tokens'', PInt 512), (''output_tokens'', PInt 256),
                   (''dataset_id'', PStr ''512-256'')],
                  [(''prompt_tokens'', PInt 400), (''output_tokens'', PInt 200),
                   (''dataset_id'', PStr ''400-200'')]]\<rparr> \<and>
   create_dataset_identifier example_str
     \<lparr>columns = [''prompt_tokens'', ''output_tokens'', ''dataset_id''],
      rows = [[(''prompt_tokens'', PInt 512), (''output_tokens'', PInt 256),
               (''dataset_id'', PStr ''512-256'')],
              [(''prompt_tokens'', PInt 400), (''output_tokens'', PInt 200),
               (''dataset_id'', PStr ''400-200'')]]\<rparr> =
     Inr \<lparr>columns = [''prompt_tokens'', ''output_tokens'', ''dataset_id''],
          rows = [[(''prompt_tokens'', PInt 512), (''output_tokens'', PInt 256),
                   (''dataset_id'', PStr ''512-256'')],
                  [(''prompt_tokens'', PInt 400), (''output_tokens'', PInt 200),
                   (''dataset_id'', PStr ''400-200'')]]\<rparr>"
proof -
  have e: "create_dataset_identifier example_str tokens_table =
     Inr \<lparr>columns = [''prompt_tokens'', ''output_tokens'', ''dataset_id''],
          rows = [[(''prompt_tokens'', PInt 512), (''output_tokens'', PInt 256),
                   (''dataset_id'', PStr ''512-256'')],
                  [(''prompt_tokens'', PInt 400), (''output_tokens'', PInt 200),
                   (''dataset_id'', PStr ''400-200'')]]\<rparr>"
    by (simp add: create_dataset_identifier_def tokens_table_def column_def set_column_def
        dataset_ids_def cell_def dict_get_def example_str_def)
  from create_dataset_identifier_idempotent[of example_str tokens_table] e
  show ?thesis
    by (simp add: tokens_table_def)
qed

end
